theory Spec2Isabelle
  imports
    Complex_Main
    "HOL-Library.Product_Lexorder"
    "HOL-Library.Char_ord"
    "HOL-Library.List_Lexorder"
    "HOL-Library.Multiset"
begin

section \<open>Retail analysis pipeline of \<^verbatim>\<open>scripts/data_processing.py\<close>\<close>

text \<open>
  The development embeds the five functions of \<^verbatim>\<open>data_processing.py\<close>
  (\<^verbatim>\<open>load_and_clean_data\<close>, \<^verbatim>\<open>analyze_sales_trends\<close>,
  \<^verbatim>\<open>plot_top_products\<close>, \<^verbatim>\<open>analyze_customer_behavior\<close>,
  \<^verbatim>\<open>generate_comprehensive_report\<close>) and \<^verbatim>\<open>main\<close>.

  A data frame is the list of its rows, in row order. Column values of dtype float64 are
  modelled by exact reals: rounding error of the binary representation is not modelled, the
  special values that a float64 division produces are (type \<open>npfloat\<close>). Python
  integers are \<open>int\<close>; the cells of the \<^verbatim>\<open>Quantity\<close> column are int64 values,
  and where the source multiplies two int64 columns the product wraps around modulo
  \<open>2 ^ 64\<close>. A pandas timestamp is the integer number of nanoseconds since
  1970-01-01T00:00, as pandas stores it. Console output and plotting are not modelled; the
  values that the source only prints (the cleaning counters, the concentration share, the
  business report) are returned by the model so that they can be stated.
\<close>

subsection \<open>float64 values with the results of division by zero\<close>

datatype npfloat = Fin real | PInf | NInf | NaN

text \<open>
  Division of two finite float64 values as numpy and pandas perform it: no exception, a
  non-zero numerator over zero is an infinity of the numerator's sign, zero over zero is NaN.
\<close>

definition np_div :: "real \<Rightarrow> real \<Rightarrow> npfloat" where
  "np_div a b =
     (if b \<noteq> 0 then Fin (a / b)
      else if 0 < a then PInf
      else if a < 0 then NInf
      else NaN)"

text \<open>Subtracting a finite value and multiplying by a positive finite value.\<close>

fun np_sub :: "npfloat \<Rightarrow> real \<Rightarrow> npfloat" where
  "np_sub (Fin x) c = Fin (x - c)"
| "np_sub PInf c = PInf"
| "np_sub NInf c = NInf"
| "np_sub NaN c = NaN"

fun np_mul_pos :: "npfloat \<Rightarrow> real \<Rightarrow> npfloat" where
  "np_mul_pos (Fin x) c = Fin (x * c)"
| "np_mul_pos PInf c = PInf"
| "np_mul_pos NInf c = NInf"
| "np_mul_pos NaN c = NaN"

text \<open>
  \<^verbatim>\<open>.round(2)\<close>: numpy rounds the value scaled by 100 to the nearest integer, a
  tie going to the even neighbour, and scales back.
\<close>

definition rint :: "real \<Rightarrow> int" where
  "rint y =
     (let f = \<lfloor>y\<rfloor>; d = y - of_int f
      in if d < 1 / 2 then f
         else if 1 / 2 < d then f + 1
         else if even f then f else f + 1)"

definition round2 :: "real \<Rightarrow> real" where
  "round2 x = of_int (rint (x * 100)) / 100"

fun np_round2 :: "npfloat \<Rightarrow> npfloat" where
  "np_round2 (Fin x) = Fin (round2 x)"
| "np_round2 v = v"

text \<open>\<^verbatim>\<open>int(x)\<close> on a Python float truncates towards zero.\<close>

definition py_int :: "real \<Rightarrow> int" where
  "py_int x = (if 0 \<le> x then \<lfloor>x\<rfloor> else \<lceil>x\<rceil>)"

subsection \<open>Timestamps and the \<^verbatim>\<open>.dt\<close> accessors\<close>

type_synonym timestamp = int

definition ns_per_day :: int where
  "ns_per_day = 86400 * 1000000000"

definition ns_per_hour :: int where
  "ns_per_hour = 3600 * 1000000000"

text \<open>\<^verbatim>\<open>Timedelta.days\<close>: whole days of a difference of timestamps, rounded down.\<close>

definition td_days :: "int \<Rightarrow> int" where
  "td_days delta = delta div ns_per_day"

text \<open>\<^verbatim>\<open>.dt.date\<close>, as the number of the day since 1970-01-01.\<close>

definition dt_date :: "timestamp \<Rightarrow> int" where
  "dt_date t = t div ns_per_day"

text \<open>
  The proleptic Gregorian calendar: year and month of a day number (the usual
  era / day-of-era computation with years starting in March).
\<close>

definition civil_year_month :: "int \<Rightarrow> int \<times> int" where
  "civil_year_month z =
     (let z' = z + 719468;
          era = z' div 146097;
          doe = z' - era * 146097;
          yoe = (doe - doe div 1460 + doe div 36524 - doe div 146096) div 365;
          doy = doe - (365 * yoe + yoe div 4 - yoe div 100);
          mp = (5 * doy + 2) div 153;
          m = (if mp < 10 then mp + 3 else mp - 9);
          y = yoe + era * 400 + (if m \<le> 2 then 1 else 0)
      in (y, m))"

definition dt_year :: "timestamp \<Rightarrow> int" where
  "dt_year t = fst (civil_year_month (dt_date t))"

definition dt_month :: "timestamp \<Rightarrow> int" where
  "dt_month t = snd (civil_year_month (dt_date t))"

definition dt_hour :: "timestamp \<Rightarrow> int" where
  "dt_hour t = (t mod ns_per_day) div ns_per_hour"

definition day_names :: "string list" where
  "day_names = [''Monday'', ''Tuesday'', ''Wednesday'', ''Thursday'', ''Friday'',
     ''Saturday'', ''Sunday'']"

text \<open>\<^verbatim>\<open>.dt.day_name()\<close>; 1970-01-01 was a Thursday.\<close>

definition dt_day_name :: "timestamp \<Rightarrow> string" where
  "dt_day_name t = day_names ! nat ((dt_date t + 3) mod 7)"

subsection \<open>Numeric cells and int64 arithmetic\<close>

text \<open>
  A numeric cell of the sheet is read as an integer when its value is a whole number and as
  a float otherwise. A column whose cells are all integers that fit 64 bits has dtype int64;
  a column with a float cell has dtype float64, and all its cells are floats.
\<close>

datatype cell = IntCell int | FloatCell real

fun cell_value :: "cell \<Rightarrow> real" where
  "cell_value (IntCell n) = of_int n"
| "cell_value (FloatCell x) = x"

definition read_cell :: "real \<Rightarrow> cell" where
  "read_cell x = (if x = of_int \<lfloor>x\<rfloor> then IntCell \<lfloor>x\<rfloor> else FloatCell x)"

definition int64_value :: "int \<Rightarrow> bool" where
  "int64_value n \<longleftrightarrow> - (2 ^ 63) \<le> n \<and> n < 2 ^ 63"

fun int64_cell :: "cell \<Rightarrow> bool" where
  "int64_cell (IntCell n) = int64_value n"
| "int64_cell (FloatCell x) = False"

definition to_float64 :: "cell \<Rightarrow> cell" where
  "to_float64 c = FloatCell (cell_value c)"

text \<open>The value that int64 arithmetic stores for an integer result: it wraps modulo \<open>2 ^ 64\<close>.\<close>

definition wrap64 :: "int \<Rightarrow> int" where
  "wrap64 n = (n + 2 ^ 63) mod 2 ^ 64 - 2 ^ 63"

text \<open>
  \<^verbatim>\<open>Quantity * UnitPrice\<close> on one row: an int64 product when the price column is
  int64, a float64 product when it is float64.
\<close>

fun multiply_columns :: "int \<Rightarrow> cell \<Rightarrow> real" where
  "multiply_columns q (IntCell n) = of_int (wrap64 (q * n))"
| "multiply_columns q (FloatCell x) = of_int q * x"

subsection \<open>Rows\<close>

text \<open>
  A row of the sheet, cell by cell. \<open>None\<close> is a missing cell (NaN); the source expects
  missing cells in \<^verbatim>\<open>CustomerID\<close> and \<^verbatim>\<open>Description\<close>.
\<close>

record raw_record =
  raw_InvoiceNo :: string
  raw_StockCode :: string
  raw_Description :: "string option"
  raw_Quantity :: int
  raw_UnitPrice :: cell
  raw_CustomerID :: "string option"
  raw_InvoiceDate :: timestamp

text \<open>A row of \<^verbatim>\<open>df_clean\<close>, with the columns the cleaning adds.\<close>

record clean_record =
  InvoiceNo :: string
  StockCode :: string
  Description :: string
  Quantity :: int
  UnitPrice :: cell
  CustomerID :: string
  InvoiceDate :: timestamp
  Year :: int
  Month :: int
  DayOfWeek :: string
  Hour :: int
  TotalAmount :: real

datatype exception = FileNotFoundError | KeyError | ZeroDivisionError | ValueError

text \<open>
  What \<^verbatim>\<open>file_path\<close> leads to: a file that cannot be read, a sheet without the
  columns the cleaning names, or a sheet with them.
\<close>

datatype source = Unreadable | MissingColumns | Table "raw_record list"

subsection \<open>\<^verbatim>\<open>load_and_clean_data\<close>\<close>

text \<open>
  The frame that \<^verbatim>\<open>pd.read_excel\<close> returns for a sheet: the price column gets
  its dtype, int64 when every price cell is an integer that fits 64 bits, float64 otherwise.
\<close>

definition column_dtypes :: "raw_record list \<Rightarrow> raw_record list" where
  "column_dtypes sheet =
     (if list_all (\<lambda>r. int64_cell (raw_UnitPrice r)) sheet then sheet
      else map (\<lambda>r. r\<lparr>raw_UnitPrice := to_float64 (raw_UnitPrice r)\<rparr>) sheet)"

text \<open>Step 1, \<^verbatim>\<open>df.dropna(subset=['CustomerID'])\<close>.\<close>

definition dropna_CustomerID :: "raw_record list \<Rightarrow> raw_record list" where
  "dropna_CustomerID df = filter (\<lambda>r. raw_CustomerID r \<noteq> None) df"

text \<open>
  Steps 2 to 5 on one row that has a customer id: the description default, the conversions
  (the timestamp is already one, the customer id already a string), the time features and
  \<^verbatim>\<open>TotalAmount = Quantity * UnitPrice\<close> in the arithmetic of the two columns.
\<close>

definition fillna_Description :: "string option \<Rightarrow> string" where
  "fillna_Description d = (case d of None \<Rightarrow> ''Unknown Product'' | Some s \<Rightarrow> s)"

definition astype_str :: "string option \<Rightarrow> string" where
  "astype_str c = (case c of None \<Rightarrow> ''nan'' | Some s \<Rightarrow> s)"

definition derive_columns :: "raw_record \<Rightarrow> clean_record" where
  "derive_columns r =
     \<lparr> InvoiceNo = raw_InvoiceNo r,
       StockCode = raw_StockCode r,
       Description = fillna_Description (raw_Description r),
       Quantity = raw_Quantity r,
       UnitPrice = raw_UnitPrice r,
       CustomerID = astype_str (raw_CustomerID r),
       InvoiceDate = raw_InvoiceDate r,
       Year = dt_year (raw_InvoiceDate r),
       Month = dt_month (raw_InvoiceDate r),
       DayOfWeek = dt_day_name (raw_InvoiceDate r),
       Hour = dt_hour (raw_InvoiceDate r),
       TotalAmount = multiply_columns (raw_Quantity r) (raw_UnitPrice r) \<rparr>"

text \<open>
  Step 6, the mask of the valid transactions. The comparisons are strict: a zero quantity,
  price or total is removed like a negative one.
\<close>

definition valid_transaction :: "clean_record \<Rightarrow> bool" where
  "valid_transaction r \<longleftrightarrow>
     0 < Quantity r \<and> 0 < cell_value (UnitPrice r) \<and> 0 < TotalAmount r"

text \<open>
  \<^verbatim>\<open>Series.quantile(q)\<close> with the default linear interpolation: position
  \<open>(n - 1) * q\<close> in the sorted values, interpolated between its two neighbours.
  \<open>None\<close> is the NaN that pandas returns for an empty series.
\<close>

definition quantile :: "real list \<Rightarrow> real \<Rightarrow> real option" where
  "quantile xs q =
     (if xs = [] then None
      else
        let s = sort xs;
            h = (of_nat (length s) - 1) * q;
            i = nat \<lfloor>h\<rfloor>;
            j = min (i + 1) (length s - 1);
            frac = h - of_int \<lfloor>h\<rfloor>
        in Some (s ! i + (s ! j - s ! i) * frac))"

text \<open>Step 7, \<^verbatim>\<open>lower_bound\<close> and \<^verbatim>\<open>upper_bound\<close> of the frame they are computed from.\<close>

definition iqr_bounds :: "clean_record list \<Rightarrow> (real \<times> real) option" where
  "iqr_bounds df =
     (case (quantile (map TotalAmount df) (1 / 4), quantile (map TotalAmount df) (3 / 4)) of
        (Some Q1, Some Q3) \<Rightarrow>
          (let IQR = Q3 - Q1 in Some (Q1 - 3 / 2 * IQR, Q3 + 3 / 2 * IQR))
      | _ \<Rightarrow> None)"

text \<open>The mask of the inliers; every comparison with a NaN bound is false.\<close>

definition within_bounds :: "(real \<times> real) option \<Rightarrow> clean_record \<Rightarrow> bool" where
  "within_bounds b r =
     (case b of
        None \<Rightarrow> False
      | Some (lower_bound, upper_bound) \<Rightarrow>
          lower_bound \<le> TotalAmount r \<and> TotalAmount r \<le> upper_bound)"

text \<open>The frame after step 6 and the frame after step 7, for a sheet.\<close>

definition valid_rows :: "raw_record list \<Rightarrow> clean_record list" where
  "valid_rows df =
     filter valid_transaction (map derive_columns (dropna_CustomerID (column_dtypes df)))"

definition inlier_rows :: "raw_record list \<Rightarrow> clean_record list" where
  "inlier_rows df = filter (within_bounds (iqr_bounds (valid_rows df))) (valid_rows df)"

text \<open>The counters that the cleaning prints.\<close>

record cleaning_statistics =
  initial_rows :: int
  removed_customers :: int
  missing_desc :: int
  removed_invalid :: int
  removed_outliers :: int
  retention_rate :: real

text \<open>
  The cleaning of a sheet. The retention rate \<^verbatim>\<open>len(df_clean)/initial_rows*100\<close>
  divides two Python integers, which raises \<^verbatim>\<open>ZeroDivisionError\<close> on a sheet
  without rows.
\<close>

definition clean_frame ::
  "raw_record list \<Rightarrow> exception + clean_record list \<times> cleaning_statistics" where
  "clean_frame df =
     (let frame = column_dtypes df;
          initial = int (length frame);
          df1 = dropna_CustomerID frame;
          removed1 = initial - int (length df1);
          n_desc = int (length (filter (\<lambda>r. raw_Description r = None) df1));
          df2 = map derive_columns df1;
          before_filter = int (length df2);
          df3 = filter valid_transaction df2;
          removed2 = before_filter - int (length df3);
          before_outlier_removal = int (length df3);
          df4 = filter (within_bounds (iqr_bounds df3)) df3;
          removed3 = before_outlier_removal - int (length df4)
      in if initial = 0 then Inl ZeroDivisionError
         else Inr (df4,
           \<lparr> initial_rows = initial,
             removed_customers = removed1,
             missing_desc = n_desc,
             removed_invalid = removed2,
             removed_outliers = removed3,
             retention_rate = of_int (int (length df4)) / of_int initial * 100 \<rparr>))"

definition load_and_clean_data ::
  "source \<Rightarrow> exception + clean_record list \<times> cleaning_statistics" where
  "load_and_clean_data src =
     (case src of
        Unreadable \<Rightarrow> Inl FileNotFoundError
      | MissingColumns \<Rightarrow> Inl KeyError
      | Table df \<Rightarrow> clean_frame df)"

text \<open>
  A cleaned frame given to the cleaning again: the original columns, every cell present
  and of the dtype of its column. The added columns are recomputed by the next cleaning.
\<close>

definition as_raw :: "clean_record \<Rightarrow> raw_record" where
  "as_raw c =
     \<lparr> raw_InvoiceNo = InvoiceNo c,
       raw_StockCode = StockCode c,
       raw_Description = Some (Description c),
       raw_Quantity = Quantity c,
       raw_UnitPrice = UnitPrice c,
       raw_CustomerID = Some (CustomerID c),
       raw_InvoiceDate = InvoiceDate c \<rparr>"

subsection \<open>Sample sheets\<close>

definition sample_row ::
  "string \<Rightarrow> string \<Rightarrow> int \<Rightarrow> real \<Rightarrow> string option \<Rightarrow> timestamp \<Rightarrow> raw_record" where
  "sample_row invoice code q p c t =
     \<lparr> raw_InvoiceNo = invoice, raw_StockCode = code, raw_Description = None,
       raw_Quantity = q, raw_UnitPrice = read_cell p, raw_CustomerID = c,
       raw_InvoiceDate = t \<rparr>"

text \<open>
  Three rows dated 2021-01-05, 2021-01-06 and 2021-01-07: a valid one, one with a negative
  quantity, one without a customer id.
\<close>

definition three_rows :: "raw_record list" where
  "three_rows =
     [sample_row ''1'' ''S1'' 5 2 (Some ''A'') (18632 * ns_per_day),
      sample_row ''2'' ''S1'' (- 1) 3 (Some ''B'') (18633 * ns_per_day),
      sample_row ''3'' ''S1'' 2 5 None (18634 * ns_per_day)]"

definition three_rows_statistics :: cleaning_statistics where
  "three_rows_statistics =
     \<lparr> initial_rows = 3, removed_customers = 1, missing_desc = 2, removed_invalid = 1,
       removed_outliers = 0, retention_rate = 100 / 3 \<rparr>"

text \<open>
  One row with quantity \<open>2 ^ 62\<close> and the whole-number price 5: the int64 product wraps
  around to \<open>2 ^ 62\<close>.
\<close>

definition overflow_rows :: "raw_record list" where
  "overflow_rows = [sample_row ''1'' ''S1'' 4611686018427387904 5 (Some ''A'') 0]"

definition overflow_statistics :: cleaning_statistics where
  "overflow_statistics =
     \<lparr> initial_rows = 1, removed_customers = 0, missing_desc = 1, removed_invalid = 0,
       removed_outliers = 0, retention_rate = 100 \<rparr>"

text \<open>
  Six valid rows of one customer with total amounts 1, 1, 1, 1, 2 and 10, and the counters
  of cleaning them and of cleaning the result again.
\<close>

definition six_rows :: "raw_record list" where
  "six_rows =
     [sample_row ''1'' ''S1'' 1 1 (Some ''A'') 0,
      sample_row ''2'' ''S1'' 1 1 (Some ''A'') 0,
      sample_row ''3'' ''S1'' 1 1 (Some ''A'') 0,
      sample_row ''4'' ''S1'' 1 1 (Some ''A'') 0,
      sample_row ''5'' ''S1'' 1 2 (Some ''A'') 0,
      sample_row ''6'' ''S1'' 1 10 (Some ''A'') 0]"

definition six_rows_statistics :: cleaning_statistics where
  "six_rows_statistics =
     \<lparr> initial_rows = 6, removed_customers = 0, missing_desc = 6, removed_invalid = 0,
       removed_outliers = 1, retention_rate = 250 / 3 \<rparr>"

definition six_rows_again_statistics :: cleaning_statistics where
  "six_rows_again_statistics =
     \<lparr> initial_rows = 5, removed_customers = 0, missing_desc = 0, removed_invalid = 0,
       removed_outliers = 1, retention_rate = 80 \<rparr>"

subsection \<open>Grouping and aggregation\<close>

text \<open>
  \<^verbatim>\<open>groupby(key)\<close> sorts the distinct keys; the group of a key is the rows that
  carry it, in row order.
\<close>

definition group_keys :: "('r \<Rightarrow> 'k::linorder) \<Rightarrow> 'r list \<Rightarrow> 'k list" where
  "group_keys key df = sort (remdups (map key df))"

definition group_rows :: "('r \<Rightarrow> 'k) \<Rightarrow> 'r list \<Rightarrow> 'k \<Rightarrow> 'r list" where
  "group_rows key df k = filter (\<lambda>r. key r = k) df"

definition nunique :: "'a list \<Rightarrow> int" where
  "nunique xs = int (length (remdups xs))"

text \<open>\<^verbatim>\<open>mean\<close>, NaN on an empty series.\<close>

definition mean :: "real list \<Rightarrow> npfloat" where
  "mean xs = np_div (sum_list xs) (of_nat (length xs))"

text \<open>\<^verbatim>\<open>min\<close> and \<^verbatim>\<open>max\<close> of a series of timestamps; \<open>None\<close> is NaT.\<close>

fun series_min :: "int list \<Rightarrow> int option" where
  "series_min [] = None"
| "series_min (x # xs) = Some (fold min xs x)"

fun series_max :: "int list \<Rightarrow> int option" where
  "series_max [] = None"
| "series_max (x # xs) = Some (fold max xs x)"

text \<open>
  \<^verbatim>\<open>pct_change()\<close>: each value divided by its predecessor, minus one; the first
  entry has no predecessor and is NaN.
\<close>

fun pct_change_from :: "real \<Rightarrow> real list \<Rightarrow> npfloat list" where
  "pct_change_from prev [] = []"
| "pct_change_from prev (x # xs) = np_sub (np_div x prev) 1 # pct_change_from x xs"

fun pct_change :: "real list \<Rightarrow> npfloat list" where
  "pct_change [] = []"
| "pct_change (x # xs) = NaN # pct_change_from x xs"

text \<open>
  \<^verbatim>\<open>nlargest(n, column)\<close> with the default \<^verbatim>\<open>keep='first'\<close>, by its
  documented contract: the first \<open>n\<close> rows in descending order of the column, rows with
  equal values in their order of occurrence; nothing for \<open>n \<le> 0\<close>.
\<close>

definition nlargest :: "int \<Rightarrow> ('r \<Rightarrow> real) \<Rightarrow> 'r list \<Rightarrow> 'r list" where
  "nlargest n col df = (if n \<le> 0 then [] else take (nat n) (sort_key (\<lambda>r. - col r) df))"

text \<open>\<^verbatim>\<open>idxmax()\<close> of a series given as (index, value) pairs: the first index with the greatest value.\<close>

fun idxmax_from :: "'k \<times> real \<Rightarrow> ('k \<times> real) list \<Rightarrow> 'k \<times> real" where
  "idxmax_from best [] = best"
| "idxmax_from best (kv # kvs) = idxmax_from (if snd best < snd kv then kv else best) kvs"

fun idxmax :: "('k \<times> real) list \<Rightarrow> ('k \<times> real) option" where
  "idxmax [] = None"
| "idxmax (kv # kvs) = Some (idxmax_from kv kvs)"

text \<open>\<^verbatim>\<open>df.groupby(key)['TotalAmount'].sum()\<close>.\<close>

definition group_sums :: "(clean_record \<Rightarrow> 'k::linorder) \<Rightarrow> clean_record list \<Rightarrow> ('k \<times> real) list" where
  "group_sums key df =
     map (\<lambda>k. (k, sum_list (map TotalAmount (group_rows key df k)))) (group_keys key df)"

subsection \<open>\<^verbatim>\<open>analyze_sales_trends\<close>\<close>

record monthly_agg =
  m_Year :: int
  m_Month :: int
  Total_Revenue :: real
  Total_Transactions :: int
  Avg_Transaction_Value :: npfloat
  m_Unique_Customers :: int
  m_Unique_Products :: int

record monthly_sales_row = monthly_agg +
  Revenue_Growth :: npfloat
  Customer_Growth :: npfloat

definition year_month :: "clean_record \<Rightarrow> int \<times> int" where
  "year_month r = (Year r, Month r)"

text \<open>The aggregation of one (Year, Month) group, rounded to two decimals.\<close>

definition monthly_agg_of :: "clean_record list \<Rightarrow> int \<times> int \<Rightarrow> monthly_agg" where
  "monthly_agg_of df k =
     (let g = group_rows year_month df k
      in \<lparr> m_Year = fst k,
           m_Month = snd k,
           Total_Revenue = round2 (sum_list (map TotalAmount g)),
           Total_Transactions = int (length g),
           Avg_Transaction_Value = np_round2 (mean (map TotalAmount g)),
           m_Unique_Customers = nunique (map CustomerID g),
           m_Unique_Products = nunique (map StockCode g) \<rparr>)"

definition monthly_groups :: "clean_record list \<Rightarrow> monthly_agg list" where
  "monthly_groups df = map (monthly_agg_of df) (group_keys year_month df)"

text \<open>
  The \<^verbatim>\<open>Date\<close> column is the first day of the month that \<^verbatim>\<open>YearMonth\<close>
  spells; it orders the rows as the pair (Year, Month) does.
\<close>

definition Date :: "'a monthly_agg_scheme \<Rightarrow> int \<times> int" where
  "Date a = (m_Year a, m_Month a)"

definition with_growth :: "monthly_agg \<Rightarrow> npfloat \<Rightarrow> npfloat \<Rightarrow> monthly_sales_row" where
  "with_growth a rg cg =
     \<lparr> m_Year = m_Year a,
       m_Month = m_Month a,
       Total_Revenue = Total_Revenue a,
       Total_Transactions = Total_Transactions a,
       Avg_Transaction_Value = Avg_Transaction_Value a,
       m_Unique_Customers = m_Unique_Customers a,
       m_Unique_Products = m_Unique_Products a,
       Revenue_Growth = rg,
       Customer_Growth = cg \<rparr>"

definition growth_percent :: "real list \<Rightarrow> npfloat list" where
  "growth_percent xs = map (\<lambda>v. np_mul_pos v 100) (pct_change xs)"

definition monthly_sales :: "clean_record list \<Rightarrow> monthly_sales_row list" where
  "monthly_sales df =
     (let ms = sort_key Date (monthly_groups df);
          rg = growth_percent (map Total_Revenue ms);
          cg = growth_percent (map (\<lambda>a. of_int (m_Unique_Customers a)) ms)
      in map (\<lambda>(a, g, c). with_growth a g c) (zip ms (zip rg cg)))"

text \<open>
  The summary that follows takes \<^verbatim>\<open>idxmax()\<close> of the revenue column, which raises
  \<^verbatim>\<open>ValueError\<close> on a frame without periods.
\<close>

definition analyze_sales_trends :: "clean_record list \<Rightarrow> exception + monthly_sales_row list" where
  "analyze_sales_trends df =
     (case idxmax (map (\<lambda>m. (Date m, Total_Revenue m)) (monthly_sales df)) of
        None \<Rightarrow> Inl ValueError
      | Some best \<Rightarrow> Inr (monthly_sales df))"

subsection \<open>\<^verbatim>\<open>plot_top_products\<close>\<close>

record product_row =
  p_StockCode :: string
  p_Description :: string
  Total_Quantity_Sold :: int
  p_Total_Revenue :: real
  Number_of_Orders :: int
  p_Unique_Customers :: int
  Avg_Unit_Price :: npfloat
  Revenue_per_Customer :: npfloat
  Avg_Quantity_per_Order :: npfloat

definition product_key :: "clean_record \<Rightarrow> string \<times> string" where
  "product_key r = (StockCode r, Description r)"

text \<open>
  The aggregation of one (StockCode, Description) group, rounded, with the two ratios that
  are derived from the rounded aggregates.
\<close>

definition product_row_of :: "clean_record list \<Rightarrow> string \<times> string \<Rightarrow> product_row" where
  "product_row_of df k =
     (let g = group_rows product_key df k;
          quantity = sum_list (map Quantity g);
          revenue = round2 (sum_list (map TotalAmount g));
          orders = nunique (map InvoiceNo g);
          customers = nunique (map CustomerID g)
      in \<lparr> p_StockCode = fst k,
           p_Description = snd k,
           Total_Quantity_Sold = quantity,
           p_Total_Revenue = revenue,
           Number_of_Orders = orders,
           p_Unique_Customers = customers,
           Avg_Unit_Price = np_round2 (mean (map (\<lambda>r. cell_value (UnitPrice r)) g)),
           Revenue_per_Customer = np_round2 (np_div revenue (of_int customers)),
           Avg_Quantity_per_Order = np_round2 (np_div (of_int quantity) (of_int orders)) \<rparr>)"

definition product_analysis :: "clean_record list \<Rightarrow> product_row list" where
  "product_analysis df = map (product_row_of df) (group_keys product_key df)"

text \<open>The returned \<^verbatim>\<open>top_products\<close>; the figure and the listing are output only.\<close>

definition plot_top_products :: "clean_record list \<Rightarrow> int \<Rightarrow> product_row list" where
  "plot_top_products df n = nlargest n p_Total_Revenue (product_analysis df)"

subsection \<open>\<^verbatim>\<open>analyze_customer_behavior\<close>\<close>

record customer_row =
  c_CustomerID :: string
  Total_Orders :: int
  Total_Spent :: real
  Avg_Order_Value :: npfloat
  Total_Items :: int
  First_Purchase :: "timestamp option"
  Last_Purchase :: "timestamp option"
  c_Unique_Products :: int
  Customer_Lifetime_Days :: "int option"

text \<open>\<^verbatim>\<open>(Last_Purchase - First_Purchase).dt.days\<close>; a difference with NaT is NaT.\<close>

definition lifetime_days :: "timestamp option \<Rightarrow> timestamp option \<Rightarrow> int option" where
  "lifetime_days first_purchase last_purchase =
     (case (first_purchase, last_purchase) of
        (Some a, Some b) \<Rightarrow> Some (td_days (b - a))
      | _ \<Rightarrow> None)"

definition customer_row_of :: "clean_record list \<Rightarrow> string \<Rightarrow> customer_row" where
  "customer_row_of df k =
     (let g = group_rows CustomerID df k;
          first_purchase = series_min (map InvoiceDate g);
          last_purchase = series_max (map InvoiceDate g)
      in \<lparr> c_CustomerID = k,
           Total_Orders = nunique (map InvoiceNo g),
           Total_Spent = round2 (sum_list (map TotalAmount g)),
           Avg_Order_Value = np_round2 (mean (map TotalAmount g)),
           Total_Items = sum_list (map Quantity g),
           First_Purchase = first_purchase,
           Last_Purchase = last_purchase,
           c_Unique_Products = nunique (map StockCode g),
           Customer_Lifetime_Days = lifetime_days first_purchase last_purchase \<rparr>)"

definition analyze_customer_behavior :: "clean_record list \<Rightarrow> customer_row list" where
  "analyze_customer_behavior df = map (customer_row_of df) (group_keys CustomerID df)"

text \<open>
  The customers that the summary line selects,
  \<^verbatim>\<open>customer_stats.nlargest(int(len(customer_stats)*0.1), 'Total_Spent')\<close>, and the
  share it prints: their spend over the spend of all customers, times 100. The product
  \<^verbatim>\<open>len(customer_stats)*0.1\<close> is taken exactly; its truncation is the count
  divided by 10, rounded down.
\<close>

definition top_customers :: "customer_row list \<Rightarrow> customer_row list" where
  "top_customers customer_stats =
     nlargest (py_int (of_nat (length customer_stats) * (1 / 10))) Total_Spent customer_stats"

definition top_customers_share :: "customer_row list \<Rightarrow> npfloat" where
  "top_customers_share customer_stats =
     np_mul_pos
       (np_div (sum_list (map Total_Spent (top_customers customer_stats)))
          (sum_list (map Total_Spent customer_stats)))
       100"

subsection \<open>\<^verbatim>\<open>generate_comprehensive_report\<close>\<close>

record business_report =
  total_revenue :: real
  total_transactions :: int
  unique_customers :: int
  unique_products :: int
  date_range :: int
  average_daily_revenue :: npfloat
  revenue_per_customer :: npfloat
  average_transaction_value :: npfloat
  best_day :: "int \<times> real"
  peak_hour :: "int \<times> real"
  best_dow :: "string \<times> real"

text \<open>
  The report of a frame. \<^verbatim>\<open>total_revenue\<close> is a float64, so the two divisions are
  float64 divisions: a zero \<^verbatim>\<open>date_range\<close> gives an infinity or NaN and no
  exception. On a frame without rows the three \<^verbatim>\<open>idxmax()\<close> calls have nothing
  to choose from and raise \<^verbatim>\<open>ValueError\<close>.
\<close>

definition generate_comprehensive_report :: "clean_record list \<Rightarrow> exception + business_report" where
  "generate_comprehensive_report df =
     (let revenue = sum_list (map TotalAmount df);
          customers = nunique (map CustomerID df)
      in case (series_min (map InvoiceDate df), series_max (map InvoiceDate df),
               idxmax (group_sums (\<lambda>r. dt_date (InvoiceDate r)) df),
               idxmax (group_sums Hour df),
               idxmax (group_sums DayOfWeek df)) of
           (Some first_date, Some last_date, Some day, Some hour, Some dow) \<Rightarrow>
             (let days = td_days (last_date - first_date)
              in Inr \<lparr> total_revenue = revenue,
                       total_transactions = int (length df),
                       unique_customers = customers,
                       unique_products = nunique (map StockCode df),
                       date_range = days,
                       average_daily_revenue = np_div revenue (of_int days),
                       revenue_per_customer = np_div revenue (of_int customers),
                       average_transaction_value = mean (map TotalAmount df),
                       best_day = day,
                       peak_hour = hour,
                       best_dow = dow \<rparr>)
         | _ \<Rightarrow> Inl ValueError)"

subsection \<open>\<^verbatim>\<open>main\<close>\<close>

record results =
  cleaned_data :: "clean_record list"
  monthly_trends :: "monthly_sales_row list"
  top_products :: "product_row list"
  customer_analysis :: "customer_row list"

text \<open>The body of the \<^verbatim>\<open>try\<close> block: the five steps, stopping at the first exception.\<close>

definition run_steps :: "source \<Rightarrow> exception + results" where
  "run_steps src =
     (case load_and_clean_data src of
        Inl e \<Rightarrow> Inl e
      | Inr (df_clean, st) \<Rightarrow>
          (case analyze_sales_trends df_clean of
             Inl e \<Rightarrow> Inl e
           | Inr trends \<Rightarrow>
               (let top = plot_top_products df_clean 10;
                    customers = analyze_customer_behavior df_clean
                in case generate_comprehensive_report df_clean of
                     Inl e \<Rightarrow> Inl e
                   | Inr report \<Rightarrow>
                       Inr \<lparr> cleaned_data = df_clean,
                             monthly_trends = trends,
                             top_products = top,
                             customer_analysis = customers \<rparr>)))"

text \<open>
  \<^verbatim>\<open>main\<close> catches every exception, prints its message and returns
  \<^verbatim>\<open>None\<close>.
\<close>

definition main :: "source \<Rightarrow> results option" where
  "main src = (case run_steps src of Inl e \<Rightarrow> None | Inr r \<Rightarrow> Some r)"

text \<open>
  Two valid rows of January and February 2021 with total amounts 1.004 and 2, and two with
  total amounts 0.001 and 5.
\<close>

definition two_periods_rows :: "raw_record list" where
  "two_periods_rows =
     [sample_row ''1'' ''S1'' 1 (251 / 250) (Some ''A'') (18632 * ns_per_day),
      sample_row ''2'' ''S1'' 1 2 (Some ''A'') (18663 * ns_per_day)]"

definition two_periods :: "clean_record list" where
  "two_periods = map derive_columns (column_dtypes two_periods_rows)"

definition tiny_period_rows :: "raw_record list" where
  "tiny_period_rows =
     [sample_row ''1'' ''S1'' 1 (1 / 1000) (Some ''A'') (18632 * ns_per_day),
      sample_row ''2'' ''S1'' 1 5 (Some ''A'') (18663 * ns_per_day)]"

definition tiny_period :: "clean_record list" where
  "tiny_period = map derive_columns (column_dtypes tiny_period_rows)"

text \<open>
  The cleaned frame of the three sample rows (one row, customer A, total amount 10), and a
  frame of four valid rows over three products, two of which have the same revenue.
\<close>

definition one_customer :: "clean_record list" where
  "one_customer = [derive_columns (three_rows ! 0)]"

definition three_products :: "clean_record list" where
  "three_products =
     map derive_columns
       [sample_row ''1'' ''S3'' 1 5 (Some ''A'') 0,
        sample_row ''2'' ''S1'' 1 5 (Some ''B'') 0,
        sample_row ''3'' ''S2'' 1 3 (Some ''A'') 0,
        sample_row ''4'' ''S2'' 2 2 (Some ''C'') 0]"

text \<open>The report of the one-row frame.\<close>

definition one_customer_report :: business_report where
  "one_customer_report =
     \<lparr> total_revenue = 10,
       total_transactions = 1,
       unique_customers = 1,
       unique_products = 1,
       date_range = 0,
       average_daily_revenue = PInf,
       revenue_per_customer = Fin 10,
       average_transaction_value = Fin 10,
       best_day = (18632, 10),
       peak_hour = (0, 10),
       best_dow = (''Tuesday'', 10) \<rparr>"

section \<open>Properties\<close>

subsection \<open>Cleaning\<close>

lemma wrap64_id: "int64_value n \<Longrightarrow> wrap64 n = n"
  by (simp add: int64_value_def wrap64_def)

lemma column_dtypes_Nil: "column_dtypes df = [] \<longleftrightarrow> df = []"
  by (simp add: column_dtypes_def)

lemma length_column_dtypes: "length (column_dtypes df) = length df"
  by (simp add: column_dtypes_def)

lemma dropna_column_dtypes:
  "length (dropna_CustomerID (column_dtypes df)) = length (dropna_CustomerID df)"
proof -
  have "filter (\<lambda>r. raw_CustomerID r \<noteq> None)
          (map (\<lambda>r. r\<lparr>raw_UnitPrice := to_float64 (raw_UnitPrice r)\<rparr>) df)
        = map (\<lambda>r. r\<lparr>raw_UnitPrice := to_float64 (raw_UnitPrice r)\<rparr>)
            (filter (\<lambda>r. raw_CustomerID r \<noteq> None) df)"
    by (simp add: filter_map comp_def)
  then show ?thesis
    by (simp add: column_dtypes_def dropna_CustomerID_def)
qed

lemma clean_frame_Inr:
  "clean_frame df = Inr (cleaned, st) \<Longrightarrow>
     df \<noteq> [] \<and> cleaned = inlier_rows df \<and>
     initial_rows st = int (length df) \<and>
     removed_customers st = int (length df) - int (length (dropna_CustomerID df)) \<and>
     removed_invalid st = int (length (dropna_CustomerID df)) - int (length (valid_rows df)) \<and>
     removed_outliers st = int (length (valid_rows df)) - int (length (inlier_rows df))"
  using dropna_column_dtypes [of df] length_column_dtypes [of df]
  by (auto simp add: clean_frame_def Let_def inlier_rows_def valid_rows_def split: if_splits)

lemma clean_frame_nonempty:
  "df \<noteq> [] \<Longrightarrow> \<exists>cleaned st. clean_frame df = Inr (cleaned, st)"
  by (simp add: clean_frame_def Let_def column_dtypes_Nil)

lemma three_rows_dtypes: "column_dtypes three_rows = three_rows"
  by (simp add: column_dtypes_def three_rows_def sample_row_def read_cell_def int64_value_def)

lemma three_rows_cleaned:
  "load_and_clean_data (Table three_rows) =
     Inr ([derive_columns (three_rows ! 0)], three_rows_statistics)"
  unfolding load_and_clean_data_def clean_frame_def three_rows_dtypes source.case
  by (simp add: three_rows_def sample_row_def read_cell_def wrap64_def
      dropna_CustomerID_def derive_columns_def valid_transaction_def iqr_bounds_def
      quantile_def within_bounds_def three_rows_statistics_def Let_def)

text \<open>
  Claim C1. On every sheet with at least one row the cleaning returns, and whenever it
  returns, the number of cleaned rows plus the three drop counters (missing customer id,
  invalid quantity, price or total, outliers) is the number of rows of the sheet; each
  counter is non-negative. The counters are the differences of the lengths of the
  successive frames, which add up to the number of rows on every sheet; on a sheet without
  rows they are all zero and the retention rate raises before anything is returned.
\<close>

theorem clean_conservation:
  "(df \<noteq> [] \<longrightarrow> (\<exists>cleaned st. load_and_clean_data (Table df) = Inr (cleaned, st))) \<and>
   (\<forall>cleaned st. load_and_clean_data (Table df) = Inr (cleaned, st) \<longrightarrow>
      int (length cleaned) + removed_customers st + removed_invalid st + removed_outliers st
        = int (length df) \<and>
      initial_rows st = int (length df) \<and>
      0 \<le> removed_customers st \<and> 0 \<le> removed_invalid st \<and> 0 \<le> removed_outliers st) \<and>
   int (length (inlier_rows df))
     + (int (length df) - int (length (dropna_CustomerID df)))
     + (int (length (dropna_CustomerID df)) - int (length (valid_rows df)))
     + (int (length (valid_rows df)) - int (length (inlier_rows df))) = int (length df)"
proof (intro conjI impI allI)
  show "int (length (inlier_rows df))
     + (int (length df) - int (length (dropna_CustomerID df)))
     + (int (length (dropna_CustomerID df)) - int (length (valid_rows df)))
     + (int (length (valid_rows df)) - int (length (inlier_rows df))) = int (length df)"
    by simp
next
  assume "df \<noteq> []"
  then show "\<exists>cleaned st. load_and_clean_data (Table df) = Inr (cleaned, st)"
    by (simp add: load_and_clean_data_def clean_frame_nonempty)
next
  fix cleaned st
  assume "load_and_clean_data (Table df) = Inr (cleaned, st)"
  then have c: "clean_frame df = Inr (cleaned, st)"
    by (simp add: load_and_clean_data_def)
  note f = clean_frame_Inr [OF c]
  have l1: "length (dropna_CustomerID df) \<le> length df"
    by (simp add: dropna_CustomerID_def)
  have "length (valid_rows df) \<le> length (dropna_CustomerID (column_dtypes df))"
    unfolding valid_rows_def
    using length_filter_le [of valid_transaction
        "map derive_columns (dropna_CustomerID (column_dtypes df))"]
    by simp
  then have l2: "length (valid_rows df) \<le> length (dropna_CustomerID df)"
    by (simp add: dropna_column_dtypes)
  have l3: "length (inlier_rows df) \<le> length (valid_rows df)"
    by (simp add: inlier_rows_def)
  show "int (length cleaned) + removed_customers st + removed_invalid st + removed_outliers st
        = int (length df)"
    using f by simp
  show "initial_rows st = int (length df)" using f by simp
  show "0 \<le> removed_customers st" using f l1 by simp
  show "0 \<le> removed_invalid st" using f l2 by simp
  show "0 \<le> removed_outliers st" using f l3 by simp
qed

theorem clean_conservation_witness:
  "three_rows \<noteq> [] \<and>
   load_and_clean_data (Table three_rows) =
     Inr ([derive_columns (three_rows ! 0)], three_rows_statistics) \<and>
   int (length [derive_columns (three_rows ! 0)])
     + removed_customers three_rows_statistics
     + removed_invalid three_rows_statistics
     + removed_outliers three_rows_statistics = int (length three_rows)"
  using clean_conservation [of three_rows] three_rows_cleaned
  by (simp add: three_rows_def)

lemma column_dtypes_cells:
  assumes "x \<in> set (column_dtypes df)"
  shows "(list_all (\<lambda>r. int64_cell (raw_UnitPrice r)) df \<longrightarrow> int64_cell (raw_UnitPrice x)) \<and>
     (\<not> list_all (\<lambda>r. int64_cell (raw_UnitPrice r)) df \<longrightarrow>
        (\<exists>v. raw_UnitPrice x = FloatCell v))"
  using assms by (auto simp add: column_dtypes_def list_all_iff to_float64_def split: if_splits)

lemma multiply_columns_exact:
  "(\<forall>n. c = IntCell n \<longrightarrow> int64_value (q * n)) \<Longrightarrow>
     multiply_columns q c = of_int q * cell_value c"
  by (cases c) (simp_all add: wrap64_id)

lemma valid_rows_cells:
  assumes "r \<in> set (valid_rows df)"
  shows "valid_transaction r \<and>
     TotalAmount r = multiply_columns (Quantity r) (UnitPrice r) \<and>
     (list_all (\<lambda>x. int64_cell (raw_UnitPrice x)) df \<longrightarrow> int64_cell (UnitPrice r)) \<and>
     (\<not> list_all (\<lambda>x. int64_cell (raw_UnitPrice x)) df \<longrightarrow>
        (\<exists>v. UnitPrice r = FloatCell v))"
proof -
  from assms obtain x where x: "x \<in> set (column_dtypes df)" and r: "r = derive_columns x"
    and v: "valid_transaction r"
    by (auto simp add: valid_rows_def dropna_CustomerID_def)
  from column_dtypes_cells [OF x] v show ?thesis
    by (simp add: r derive_columns_def)
qed

text \<open>
  Claim C2, as amended. Every row of the cleaned frame has a positive quantity, a positive
  unit price and a positive total amount. The total amount is the product of quantity and
  unit price in the arithmetic of the two columns: the float64 product when the price
  column is float64, the int64 product, which wraps around modulo \<open>2 ^ 64\<close>, when every
  price of the sheet is a whole number that fits 64 bits; it is quantity times unit price
  whenever the row's price is a float or that product fits 64 bits. The total amount lies
  between \<open>Q1 - 1.5 IQR\<close> and \<open>Q3 + 1.5 IQR\<close>, where \<open>Q1\<close> and \<open>Q3\<close> are the
  quartiles of the total amounts of the frame that the validity filter leaves (computed
  once).
\<close>

theorem cleaned_rows_valid_inliers:
  assumes "load_and_clean_data (Table df) = Inr (cleaned, st)"
    and "r \<in> set cleaned"
  shows "0 < Quantity r \<and> 0 < cell_value (UnitPrice r) \<and> 0 < TotalAmount r \<and>
     TotalAmount r = multiply_columns (Quantity r) (UnitPrice r) \<and>
     (list_all (\<lambda>x. int64_cell (raw_UnitPrice x)) df \<longrightarrow> int64_cell (UnitPrice r)) \<and>
     (\<not> list_all (\<lambda>x. int64_cell (raw_UnitPrice x)) df \<longrightarrow>
        (\<exists>v. UnitPrice r = FloatCell v)) \<and>
     ((\<forall>n. UnitPrice r = IntCell n \<longrightarrow> int64_value (Quantity r * n)) \<longrightarrow>
        TotalAmount r = of_int (Quantity r) * cell_value (UnitPrice r)) \<and>
     (\<exists>Q1 Q3.
        quantile (map TotalAmount (valid_rows df)) (1 / 4) = Some Q1 \<and>
        quantile (map TotalAmount (valid_rows df)) (3 / 4) = Some Q3 \<and>
        Q1 - 3 / 2 * (Q3 - Q1) \<le> TotalAmount r \<and>
        TotalAmount r \<le> Q3 + 3 / 2 * (Q3 - Q1))"
proof -
  from assms(1) have c: "clean_frame df = Inr (cleaned, st)"
    by (simp add: load_and_clean_data_def)
  from clean_frame_Inr [OF c] assms(2) have r: "r \<in> set (inlier_rows df)" by simp
  then have v: "r \<in> set (valid_rows df)" and w: "within_bounds (iqr_bounds (valid_rows df)) r"
    by (simp_all add: inlier_rows_def)
  note cells = valid_rows_cells [OF v]
  then have a: "0 < Quantity r \<and> 0 < cell_value (UnitPrice r) \<and> 0 < TotalAmount r"
    by (simp add: valid_transaction_def)
  have b: "TotalAmount r = of_int (Quantity r) * cell_value (UnitPrice r)"
    if "\<forall>n. UnitPrice r = IntCell n \<longrightarrow> int64_value (Quantity r * n)"
    using cells multiply_columns_exact [OF that] by simp
  from w have q: "\<exists>Q1 Q3.
        quantile (map TotalAmount (valid_rows df)) (1 / 4) = Some Q1 \<and>
        quantile (map TotalAmount (valid_rows df)) (3 / 4) = Some Q3 \<and>
        Q1 - 3 / 2 * (Q3 - Q1) \<le> TotalAmount r \<and>
        TotalAmount r \<le> Q3 + 3 / 2 * (Q3 - Q1)"
    by (auto simp add: within_bounds_def iqr_bounds_def Let_def split: option.splits prod.splits)
  show ?thesis
    using a b cells q by blast
qed

lemma overflow_rows_dtypes: "column_dtypes overflow_rows = overflow_rows"
  by (simp add: column_dtypes_def overflow_rows_def sample_row_def read_cell_def
      int64_value_def)

lemma overflow_wrap64: "wrap64 23058430092136939520 = 4611686018427387904"
  unfolding wrap64_def by simp

text \<open>
  The claim as stated fails: the row with quantity \<open>2 ^ 62\<close> and unit price 5 is kept by
  the cleaning with the total amount \<open>2 ^ 62\<close>, which is not quantity times unit price.
\<close>

theorem total_amount_wraps:
  "load_and_clean_data (Table overflow_rows) =
     Inr ([derive_columns (overflow_rows ! 0)], overflow_statistics) \<and>
   Quantity (derive_columns (overflow_rows ! 0)) = 4611686018427387904 \<and>
   UnitPrice (derive_columns (overflow_rows ! 0)) = IntCell 5 \<and>
   TotalAmount (derive_columns (overflow_rows ! 0)) = 4611686018427387904 \<and>
   TotalAmount (derive_columns (overflow_rows ! 0)) \<noteq>
     of_int (Quantity (derive_columns (overflow_rows ! 0)))
       * cell_value (UnitPrice (derive_columns (overflow_rows ! 0)))"
proof -
  have t: "TotalAmount (derive_columns (overflow_rows ! 0)) = 4611686018427387904"
    "Quantity (derive_columns (overflow_rows ! 0)) = 4611686018427387904"
    "UnitPrice (derive_columns (overflow_rows ! 0)) = IntCell 5"
    by (simp_all add: derive_columns_def overflow_rows_def sample_row_def read_cell_def
        overflow_wrap64)
  have "clean_frame overflow_rows =
      Inr ([derive_columns (overflow_rows ! 0)], overflow_statistics)"
    unfolding clean_frame_def overflow_rows_dtypes
    by (simp add: overflow_rows_def sample_row_def read_cell_def overflow_wrap64
        dropna_CustomerID_def derive_columns_def valid_transaction_def iqr_bounds_def
        quantile_def within_bounds_def overflow_statistics_def Let_def)
  then show ?thesis
    by (simp add: load_and_clean_data_def t)
qed

theorem cleaned_rows_valid_inliers_witness:
  "load_and_clean_data (Table three_rows) =
     Inr ([derive_columns (three_rows ! 0)], three_rows_statistics) \<and>
   derive_columns (three_rows ! 0) \<in> set [derive_columns (three_rows ! 0)] \<and>
   Quantity (derive_columns (three_rows ! 0)) = 5 \<and>
   UnitPrice (derive_columns (three_rows ! 0)) = IntCell 2 \<and>
   int64_value (Quantity (derive_columns (three_rows ! 0)) * 2) \<and>
   TotalAmount (derive_columns (three_rows ! 0)) = 10 \<and>
   quantile (map TotalAmount (valid_rows three_rows)) (1 / 4) = Some 10 \<and>
   quantile (map TotalAmount (valid_rows three_rows)) (3 / 4) = Some 10"
proof -
  have q: "Quantity (derive_columns (three_rows ! 0)) = 5"
    "UnitPrice (derive_columns (three_rows ! 0)) = IntCell 2"
    by (simp_all add: derive_columns_def three_rows_def sample_row_def read_cell_def)
  have i: "int64_value (Quantity (derive_columns (three_rows ! 0)) * 2)"
    by (simp add: q int64_value_def)
  have m: "derive_columns (three_rows ! 0) \<in> set [derive_columns (three_rows ! 0)]"
    by simp
  have t: "TotalAmount (derive_columns (three_rows ! 0)) = 10"
    by (simp add: derive_columns_def three_rows_def sample_row_def read_cell_def wrap64_def)
  have v: "valid_rows three_rows = [derive_columns (three_rows ! 0)]"
    unfolding valid_rows_def three_rows_dtypes
    by (simp add: three_rows_def sample_row_def read_cell_def wrap64_def
        dropna_CustomerID_def derive_columns_def valid_transaction_def)
  have "quantile (map TotalAmount (valid_rows three_rows)) (1 / 4) = Some 10"
    "quantile (map TotalAmount (valid_rows three_rows)) (3 / 4) = Some 10"
    by (simp_all add: v t quantile_def)
  then show ?thesis
    using cleaned_rows_valid_inliers [OF three_rows_cleaned m] three_rows_cleaned q i t
    by simp
qed

lemma derive_as_raw: "derive_columns (as_raw (derive_columns r)) = derive_columns r"
  by (simp add: derive_columns_def as_raw_def fillna_Description_def astype_str_def)

lemma dropna_as_raw: "dropna_CustomerID (map as_raw cs) = map as_raw cs"
  by (simp add: dropna_CustomerID_def as_raw_def)

lemma inlier_rows_derived:
  "c \<in> set (inlier_rows df) \<Longrightarrow> derive_columns (as_raw c) = c \<and> valid_transaction c"
  by (auto simp add: inlier_rows_def valid_rows_def derive_as_raw)

lemma column_dtypes_uniform:
  assumes "(\<forall>r\<in>set rs. int64_cell (raw_UnitPrice r)) \<or>
     (\<forall>r\<in>set rs. \<exists>v. raw_UnitPrice r = FloatCell v)"
  shows "column_dtypes rs = rs"
proof (cases "list_all (\<lambda>r. int64_cell (raw_UnitPrice r)) rs")
  case True
  then show ?thesis by (simp add: column_dtypes_def)
next
  case False
  with assms have f: "\<forall>r\<in>set rs. \<exists>v. raw_UnitPrice r = FloatCell v"
    by (auto simp add: list_all_iff)
  have "map (\<lambda>r. r\<lparr>raw_UnitPrice := to_float64 (raw_UnitPrice r)\<rparr>) rs = rs"
  proof (rule map_idI)
    fix r assume "r \<in> set rs"
    with f obtain v where "raw_UnitPrice r = FloatCell v" by blast
    then show "r\<lparr>raw_UnitPrice := to_float64 (raw_UnitPrice r)\<rparr> = r"
      by (simp add: to_float64_def)
  qed
  with False show ?thesis by (simp add: column_dtypes_def)
qed

lemma column_dtypes_as_raw_inliers:
  "column_dtypes (map as_raw (inlier_rows df)) = map as_raw (inlier_rows df)"
proof (rule column_dtypes_uniform)
  have u: "raw_UnitPrice (as_raw c) = UnitPrice c" for c
    by (simp add: as_raw_def)
  have v: "c \<in> set (valid_rows df)" if "c \<in> set (inlier_rows df)" for c
    using that by (simp add: inlier_rows_def)
  show "(\<forall>r\<in>set (map as_raw (inlier_rows df)). int64_cell (raw_UnitPrice r)) \<or>
     (\<forall>r\<in>set (map as_raw (inlier_rows df)). \<exists>v. raw_UnitPrice r = FloatCell v)"
  proof (cases "list_all (\<lambda>x. int64_cell (raw_UnitPrice x)) df")
    case True
    then have "\<forall>c\<in>set (inlier_rows df). int64_cell (UnitPrice c)"
      using valid_rows_cells v by blast
    then show ?thesis by (simp add: u)
  next
    case False
    then have "\<forall>c\<in>set (inlier_rows df). \<exists>x. UnitPrice c = FloatCell x"
      using valid_rows_cells v by blast
    then show ?thesis by (simp add: u)
  qed
qed

lemma valid_rows_as_raw:
  assumes "\<forall>c\<in>set cs. derive_columns (as_raw c) = c \<and> valid_transaction c"
    and "column_dtypes (map as_raw cs) = map as_raw cs"
  shows "valid_rows (map as_raw cs) = cs"
proof -
  have "map derive_columns (map as_raw cs) = cs"
    using assms(1) by (simp add: map_idI)
  moreover have "filter valid_transaction cs = cs"
    using assms(1) by simp
  ultimately show ?thesis
    by (simp add: valid_rows_def assms(2) dropna_as_raw)
qed

text \<open>
  Claim C7, as amended. Cleaning the cleaned frame again (when it has a row) returns, drops
  nothing for a missing customer id and nothing for invalid values, and keeps exactly the
  rows that lie within the bound recomputed from the cleaned frame; the outlier counter is
  the number of rows this second bound excludes, which need not be zero.
\<close>

theorem reclean_outliers_only:
  assumes "load_and_clean_data (Table df) = Inr (cleaned, st)"
    and "cleaned \<noteq> []"
  shows "\<exists>cleaned' st'.
     load_and_clean_data (Table (map as_raw cleaned)) = Inr (cleaned', st') \<and>
     removed_customers st' = 0 \<and> removed_invalid st' = 0 \<and>
     cleaned' = filter (within_bounds (iqr_bounds cleaned)) cleaned \<and>
     removed_outliers st' = int (length cleaned) - int (length cleaned')"
proof -
  from assms(1) have c: "clean_frame df = Inr (cleaned, st)"
    by (simp add: load_and_clean_data_def)
  then have eq: "cleaned = inlier_rows df"
    by (simp add: clean_frame_Inr)
  then have v: "valid_rows (map as_raw cleaned) = cleaned"
    using inlier_rows_derived column_dtypes_as_raw_inliers
    by (intro valid_rows_as_raw) auto
  from assms(2) have "map as_raw cleaned \<noteq> []" by simp
  then obtain cleaned' st' where
    r: "clean_frame (map as_raw cleaned) = Inr (cleaned', st')"
    using clean_frame_nonempty by blast
  note f = clean_frame_Inr [OF r]
  have "removed_customers st' = 0" using f by (simp add: dropna_as_raw)
  moreover have "removed_invalid st' = 0" using f v by (simp add: dropna_as_raw)
  moreover have "cleaned' = filter (within_bounds (iqr_bounds cleaned)) cleaned"
    using f v by (simp add: inlier_rows_def)
  moreover have "removed_outliers st' = int (length cleaned) - int (length cleaned')"
    using f v by simp
  ultimately show ?thesis using r
    by (simp add: load_and_clean_data_def)
qed

lemma six_rows_dtypes:
  "column_dtypes six_rows = six_rows"
  "column_dtypes (map as_raw (map derive_columns (take 5 six_rows)))
     = map as_raw (map derive_columns (take 5 six_rows))"
  by (simp_all add: column_dtypes_def six_rows_def sample_row_def read_cell_def
      int64_value_def as_raw_def derive_columns_def)

text \<open>
  The claim as stated fails: of the six sample rows the first cleaning removes the amount
  10, and cleaning the five remaining rows again removes the amount 2.
\<close>

theorem reclean_not_fixed_point:
  "load_and_clean_data (Table six_rows) =
     Inr (map derive_columns (take 5 six_rows), six_rows_statistics) \<and>
   load_and_clean_data (Table (map as_raw (map derive_columns (take 5 six_rows)))) =
     Inr (map derive_columns (take 4 six_rows), six_rows_again_statistics) \<and>
   removed_outliers six_rows_again_statistics = 1 \<and>
   map derive_columns (take 4 six_rows) \<noteq> map derive_columns (take 5 six_rows)"
  unfolding load_and_clean_data_def clean_frame_def six_rows_dtypes source.case
  by (simp add: six_rows_def sample_row_def read_cell_def wrap64_def
      dropna_CustomerID_def derive_columns_def valid_transaction_def iqr_bounds_def
      quantile_def within_bounds_def six_rows_statistics_def six_rows_again_statistics_def
      as_raw_def fillna_Description_def astype_str_def Let_def)

theorem reclean_outliers_only_witness:
  "load_and_clean_data (Table three_rows) =
     Inr ([derive_columns (three_rows ! 0)], three_rows_statistics) \<and>
   [derive_columns (three_rows ! 0)] \<noteq> [] \<and>
   (\<exists>st'. load_and_clean_data (Table (map as_raw [derive_columns (three_rows ! 0)])) =
      Inr ([derive_columns (three_rows ! 0)], st') \<and>
      removed_customers st' = 0 \<and> removed_invalid st' = 0 \<and> removed_outliers st' = 0)"
  using reclean_outliers_only [OF three_rows_cleaned] three_rows_cleaned
  by (auto simp add: three_rows_def sample_row_def derive_columns_def iqr_bounds_def
      quantile_def within_bounds_def)

subsection \<open>Groups, percentage change and the monthly table\<close>

lemma sorted_group_keys: "sorted (group_keys key df)"
  by (simp add: group_keys_def)

lemma distinct_group_keys: "distinct (group_keys key df)"
  by (simp add: group_keys_def)

lemma set_group_keys: "set (group_keys key df) = key ` set df"
  by (simp add: group_keys_def)

lemma length_group_keys: "length (group_keys key df) = card (key ` set df)"
  by (simp add: group_keys_def length_remdups_card_conv)

lemma group_rows_nonempty: "k \<in> set (group_keys key df) \<Longrightarrow> group_rows key df k \<noteq> []"
  by (auto simp add: set_group_keys group_rows_def filter_empty_conv)

lemma length_pct_change_from: "length (pct_change_from p xs) = length xs"
  by (induction xs arbitrary: p) simp_all

lemma length_pct_change: "length (pct_change xs) = length xs"
  by (cases xs) (simp_all add: length_pct_change_from)

lemma nth_pct_change_from:
  "i < length xs \<Longrightarrow> pct_change_from p xs ! i = np_sub (np_div (xs ! i) ((p # xs) ! i)) 1"
proof (induction xs arbitrary: p i)
  case Nil
  then show ?case by simp
next
  case (Cons x xs)
  then show ?case by (cases i) simp_all
qed

lemma nth_pct_change:
  "0 < i \<Longrightarrow> i < length xs \<Longrightarrow> pct_change xs ! i = np_sub (np_div (xs ! i) (xs ! (i - 1))) 1"
proof (cases xs)
  case Nil
  assume "i < length xs" with Nil show ?thesis by simp
next
  case (Cons x ys)
  assume "0 < i" "i < length xs"
  then obtain j where j: "i = Suc j" "j < length ys"
    using Cons by (cases i) simp_all
  then show ?thesis
    using Cons nth_pct_change_from [of j ys x] by simp
qed

lemma length_growth_percent: "length (growth_percent xs) = length xs"
  by (simp add: growth_percent_def length_pct_change)

lemma growth_percent_first: "xs \<noteq> [] \<Longrightarrow> growth_percent xs ! 0 = NaN"
  by (cases xs) (simp_all add: growth_percent_def)

lemma nth_growth_percent:
  "0 < i \<Longrightarrow> i < length xs \<Longrightarrow>
     growth_percent xs ! i = np_mul_pos (np_sub (np_div (xs ! i) (xs ! (i - 1))) 1) 100"
  by (simp add: growth_percent_def length_pct_change nth_pct_change)

lemma growth_percent_finite:
  "b \<noteq> 0 \<Longrightarrow> np_mul_pos (np_sub (np_div a b) 1) 100 = Fin ((a - b) / b * 100)"
  by (simp add: np_div_def field_simps)

lemma growth_percent_zero:
  "np_mul_pos (np_sub (np_div a 0) 1) 100 = (if 0 < a then PInf else if a < 0 then NInf else NaN)"
  by (simp add: np_div_def)

lemma Date_monthly_agg_of: "Date (monthly_agg_of df k) = k"
  by (simp add: Date_def monthly_agg_of_def Let_def)

lemma map_Date_monthly_groups: "map Date (monthly_groups df) = group_keys year_month df"
  by (simp add: monthly_groups_def Date_monthly_agg_of comp_def)

lemma sort_monthly_groups: "sort_key Date (monthly_groups df) = monthly_groups df"
  by (rule sort_key_id_if_sorted) (simp add: map_Date_monthly_groups sorted_group_keys)

lemma length_monthly_groups: "length (monthly_groups df) = length (group_keys year_month df)"
  by (simp add: monthly_groups_def)

lemma length_monthly_sales: "length (monthly_sales df) = length (monthly_groups df)"
  by (simp add: monthly_sales_def Let_def sort_monthly_groups length_growth_percent)

lemma nth_monthly_sales:
  assumes "i < length (monthly_groups df)"
  shows "monthly_sales df ! i =
     with_growth (monthly_groups df ! i)
       (growth_percent (map Total_Revenue (monthly_groups df)) ! i)
       (growth_percent (map (\<lambda>a. of_int (m_Unique_Customers a)) (monthly_groups df)) ! i)"
  using assms
  by (simp add: monthly_sales_def Let_def sort_monthly_groups length_growth_percent)

lemma Date_with_growth: "Date (with_growth a g c) = Date a"
  by (simp add: Date_def with_growth_def)

lemma map_Date_monthly_sales: "map Date (monthly_sales df) = group_keys year_month df"
proof (rule nth_equalityI)
  show "length (map Date (monthly_sales df)) = length (group_keys year_month df)"
    by (simp add: length_monthly_sales length_monthly_groups)
next
  fix i assume "i < length (map Date (monthly_sales df))"
  then have i: "i < length (monthly_groups df)" by (simp add: length_monthly_sales)
  then have "Date (monthly_sales df ! i) = map Date (monthly_groups df) ! i"
    by (simp add: nth_monthly_sales Date_with_growth)
  then show "map Date (monthly_sales df) ! i = group_keys year_month df ! i"
    using i by (simp add: length_monthly_sales map_Date_monthly_groups)
qed

lemma analyze_sales_trends_Inr:
  "analyze_sales_trends df = Inr ms \<Longrightarrow> ms = monthly_sales df \<and> ms \<noteq> []"
  by (auto simp add: analyze_sales_trends_def split: option.splits)

lemma monthly_sales_nonempty: "df \<noteq> [] \<Longrightarrow> monthly_sales df \<noteq> []"
proof -
  assume "df \<noteq> []"
  then have "set (group_keys year_month df) \<noteq> {}" by (simp add: set_group_keys)
  then have "length (monthly_sales df) \<noteq> 0"
    by (simp add: length_monthly_sales length_monthly_groups)
  then show ?thesis by simp
qed

lemma analyze_sales_trends_nonempty:
  "df \<noteq> [] \<Longrightarrow> analyze_sales_trends df = Inr (monthly_sales df)"
  using monthly_sales_nonempty [of df]
  by (cases "monthly_sales df") (simp_all add: analyze_sales_trends_def)

lemma Total_Revenue_monthly_sales:
  "i < length (monthly_groups df) \<Longrightarrow>
     Total_Revenue (monthly_sales df ! i) = map Total_Revenue (monthly_groups df) ! i"
  by (simp add: nth_monthly_sales with_growth_def)

lemma Unique_Customers_monthly_sales:
  "i < length (monthly_groups df) \<Longrightarrow>
     m_Unique_Customers (monthly_sales df ! i) = m_Unique_Customers (monthly_groups df ! i)"
  by (simp add: nth_monthly_sales with_growth_def)

lemma Revenue_Growth_monthly_sales:
  "i < length (monthly_groups df) \<Longrightarrow>
     Revenue_Growth (monthly_sales df ! i) = growth_percent (map Total_Revenue (monthly_groups df)) ! i"
  by (simp add: nth_monthly_sales with_growth_def)

lemma Customer_Growth_monthly_sales:
  "i < length (monthly_groups df) \<Longrightarrow>
     Customer_Growth (monthly_sales df ! i) =
       growth_percent (map (\<lambda>a. of_int (m_Unique_Customers a)) (monthly_groups df)) ! i"
  by (simp add: nth_monthly_sales with_growth_def)

lemma Total_Revenue_is_rounded_sum:
  assumes "i < length (monthly_groups df)"
  shows "Total_Revenue (monthly_sales df ! i) =
     round2 (sum_list (map TotalAmount (group_rows year_month df (Date (monthly_sales df ! i)))))"
proof -
  have "Date (monthly_sales df ! i) = group_keys year_month df ! i"
    using assms map_Date_monthly_sales [of df]
    by (metis length_monthly_sales nth_map)
  then show ?thesis
    using assms
    by (simp add: Total_Revenue_monthly_sales monthly_groups_def monthly_agg_of_def Let_def)
qed

lemma nunique_pos: "xs \<noteq> [] \<Longrightarrow> 0 < nunique xs"
  by (cases xs) (auto simp add: nunique_def)

lemma Unique_Customers_pos:
  assumes "i < length (monthly_groups df)"
  shows "0 < m_Unique_Customers (monthly_groups df ! i)"
proof -
  from assms have "group_keys year_month df ! i \<in> set (group_keys year_month df)"
    by (simp add: length_monthly_groups)
  then have "group_rows year_month df (group_keys year_month df ! i) \<noteq> []"
    by (rule group_rows_nonempty)
  then show ?thesis
    using assms
    by (simp add: monthly_groups_def monthly_agg_of_def Let_def nunique_pos)
qed

subsection \<open>Sample frames evaluated\<close>

lemma sample_dates:
  "dt_date (18632 * ns_per_day) = 18632" "dt_date (18663 * ns_per_day) = 18663"
  by (simp_all add: dt_date_def ns_per_day_def)

lemma sample_months:
  "civil_year_month 18632 = (2021, 1)" "civil_year_month 18663 = (2021, 2)"
  by code_simp+

lemma sample_hours:
  "dt_hour (18632 * ns_per_day) = 0" "dt_hour (18663 * ns_per_day) = 0"
  by (simp_all add: dt_hour_def ns_per_day_def ns_per_hour_def)

lemma sample_day_names:
  "dt_day_name (18632 * ns_per_day) = ''Tuesday''" "dt_day_name (18663 * ns_per_day) = ''Friday''"
  by (simp_all add: dt_day_name_def sample_dates day_names_def)

lemma two_periods_eval:
  "two_periods =
     [\<lparr>InvoiceNo = ''1'', StockCode = ''S1'', Description = ''Unknown Product'', Quantity = 1,
        UnitPrice = FloatCell (251 / 250), CustomerID = ''A'', InvoiceDate = 18632 * ns_per_day,
        Year = 2021, Month = 1, DayOfWeek = ''Tuesday'', Hour = 0, TotalAmount = 251 / 250\<rparr>,
      \<lparr>InvoiceNo = ''2'', StockCode = ''S1'', Description = ''Unknown Product'', Quantity = 1,
        UnitPrice = FloatCell 2, CustomerID = ''A'', InvoiceDate = 18663 * ns_per_day,
        Year = 2021, Month = 2, DayOfWeek = ''Friday'', Hour = 0, TotalAmount = 2\<rparr>]"
  by (simp add: two_periods_def column_dtypes_def two_periods_rows_def sample_row_def read_cell_def
      to_float64_def derive_columns_def
      fillna_Description_def astype_str_def dt_year_def dt_month_def sample_dates
      sample_months sample_hours sample_day_names)

lemma two_periods_valid: "valid_rows two_periods_rows = two_periods"
proof -
  have "dropna_CustomerID (column_dtypes two_periods_rows) = column_dtypes two_periods_rows"
    by (simp add: dropna_CustomerID_def column_dtypes_def two_periods_rows_def sample_row_def)
  moreover have "filter valid_transaction two_periods = two_periods"
    by (simp add: two_periods_eval valid_transaction_def)
  ultimately show ?thesis
    by (simp add: valid_rows_def two_periods_def)
qed

lemma two_periods_bounds: "iqr_bounds two_periods = Some (253 / 500, 1249 / 500)"
  by (simp add: iqr_bounds_def quantile_def two_periods_eval Let_def)

lemma two_periods_inliers: "inlier_rows two_periods_rows = two_periods"
proof -
  have "filter (within_bounds (Some (253 / 500, 1249 / 500))) two_periods = two_periods"
    by (simp add: two_periods_eval within_bounds_def)
  then show ?thesis
    by (simp add: inlier_rows_def two_periods_valid two_periods_bounds)
qed

lemma two_periods_groups:
  "monthly_groups two_periods =
     [monthly_agg_of two_periods (2021, 1), monthly_agg_of two_periods (2021, 2)]"
  by (simp add: monthly_groups_def two_periods_eval group_keys_def year_month_def
      less_eq_prod_def)

lemma two_periods_sums:
  "sum_list (map TotalAmount (group_rows year_month two_periods (2021, 1))) = 251 / 250"
  "sum_list (map TotalAmount (group_rows year_month two_periods (2021, 2))) = 2"
  by (simp_all add: group_rows_def year_month_def two_periods_eval)

lemma two_periods_revenue:
  "Total_Revenue (monthly_agg_of two_periods (2021, 1)) = 1"
  "Total_Revenue (monthly_agg_of two_periods (2021, 2)) = 2"
  by (simp_all add: monthly_agg_of_def two_periods_sums round2_def rint_def Let_def)

subsection \<open>Sales trends\<close>

text \<open>
  Claim C3, as amended. On every frame with a row the monthly table is returned; whenever it
  is returned, its rows are in strictly ascending order of (Year, Month), so no key occurs
  twice; the growth fields of the first row are NaN (null); the revenue of a row is the sum
  of its group rounded to two decimals; and for every later row whose predecessor has a
  non-zero revenue, the revenue growth is (rev[i] - rev[i-1]) / rev[i-1] * 100 over these
  rounded revenues: the denominator is the rounded revenue of the predecessor.
\<close>

theorem trends_sorted_growth:
  "(df \<noteq> [] \<longrightarrow> (\<exists>ms. analyze_sales_trends df = Inr ms)) \<and>
   (\<forall>ms. analyze_sales_trends df = Inr ms \<longrightarrow>
      sorted_wrt (<) (map Date ms) \<and>
      Revenue_Growth (ms ! 0) = NaN \<and> Customer_Growth (ms ! 0) = NaN \<and>
      (\<forall>i. i < length ms \<longrightarrow>
         Total_Revenue (ms ! i) =
           round2 (sum_list (map TotalAmount (group_rows year_month df (Date (ms ! i)))))) \<and>
      (\<forall>i. 0 < i \<and> i < length ms \<and> Total_Revenue (ms ! (i - 1)) \<noteq> 0 \<longrightarrow>
         Revenue_Growth (ms ! i) =
           Fin ((Total_Revenue (ms ! i) - Total_Revenue (ms ! (i - 1)))
                / Total_Revenue (ms ! (i - 1)) * 100)))"
proof (intro conjI impI allI)
  assume "df \<noteq> []"
  then show "\<exists>ms. analyze_sales_trends df = Inr ms"
    by (simp add: analyze_sales_trends_nonempty)
next
  fix ms assume "analyze_sales_trends df = Inr ms"
  then have ms: "ms = monthly_sales df" and ne: "ms \<noteq> []"
    by (simp_all add: analyze_sales_trends_Inr)
  have len: "length ms = length (monthly_groups df)"
    by (simp add: ms length_monthly_sales)
  show "sorted_wrt (<) (map Date ms)"
    by (simp add: ms map_Date_monthly_sales strict_sorted_iff sorted_group_keys
        distinct_group_keys)
  from ne len have z: "0 < length (monthly_groups df)" by (cases ms) auto
  show "Revenue_Growth (ms ! 0) = NaN"
    using z by (simp add: ms Revenue_Growth_monthly_sales growth_percent_first)
  show "Customer_Growth (ms ! 0) = NaN"
    using z by (simp add: ms Customer_Growth_monthly_sales growth_percent_first)
  {
    fix i assume "i < length ms"
    then show "Total_Revenue (ms ! i) =
        round2 (sum_list (map TotalAmount (group_rows year_month df (Date (ms ! i)))))"
      using len Total_Revenue_is_rounded_sum [of i df] by (simp add: ms)
  }
  {
    fix i assume a: "0 < i \<and> i < length ms \<and> Total_Revenue (ms ! (i - 1)) \<noteq> 0"
    then have i: "i < length (monthly_groups df)" and j: "i - 1 < length (monthly_groups df)"
      using len by auto
    have "Revenue_Growth (ms ! i) =
        np_mul_pos (np_sub (np_div (Total_Revenue (ms ! i)) (Total_Revenue (ms ! (i - 1)))) 1) 100"
      using a i j
      by (simp add: ms Revenue_Growth_monthly_sales Total_Revenue_monthly_sales
          nth_growth_percent)
    then show "Revenue_Growth (ms ! i) =
        Fin ((Total_Revenue (ms ! i) - Total_Revenue (ms ! (i - 1)))
             / Total_Revenue (ms ! (i - 1)) * 100)"
      using a by (simp add: growth_percent_finite)
  }
qed

lemma two_periods_trends:
  "analyze_sales_trends two_periods = Inr (monthly_sales two_periods)"
  by (rule analyze_sales_trends_nonempty) (simp add: two_periods_eval)

lemma two_periods_length: "length (monthly_groups two_periods) = 2"
  by (simp add: two_periods_groups)

lemma two_periods_growth: "Revenue_Growth (monthly_sales two_periods ! 1) = Fin 100"
  by (simp add: Revenue_Growth_monthly_sales two_periods_length two_periods_groups
      two_periods_revenue growth_percent_def np_div_def)

text \<open>
  The claim as stated fails: with the revenues 1.004 and 2 in January and February 2021 the
  second growth is 100, computed from the rounded revenue 1.00, and not the value that the
  unrounded denominator 1.004 gives (with either numerator).
\<close>

theorem growth_denominator_rounded:
  "inlier_rows two_periods_rows = two_periods \<and>
   analyze_sales_trends two_periods = Inr (monthly_sales two_periods) \<and>
   length (monthly_sales two_periods) = 2 \<and>
   Date (monthly_sales two_periods ! 0) = (2021, 1) \<and>
   Date (monthly_sales two_periods ! 1) = (2021, 2) \<and>
   Revenue_Growth (monthly_sales two_periods ! 1) = Fin 100 \<and>
   Revenue_Growth (monthly_sales two_periods ! 1) \<noteq>
     Fin ((sum_list (map TotalAmount (group_rows year_month two_periods (2021, 2)))
           - sum_list (map TotalAmount (group_rows year_month two_periods (2021, 1))))
          / sum_list (map TotalAmount (group_rows year_month two_periods (2021, 1))) * 100) \<and>
   Revenue_Growth (monthly_sales two_periods ! 1) \<noteq>
     Fin ((Total_Revenue (monthly_sales two_periods ! 1)
           - Total_Revenue (monthly_sales two_periods ! 0))
          / sum_list (map TotalAmount (group_rows year_month two_periods (2021, 1))) * 100)"
proof -
  have "inlier_rows two_periods_rows = two_periods"
    by (rule two_periods_inliers)
  moreover have "length (monthly_sales two_periods) = 2"
    by (simp add: length_monthly_sales two_periods_length)
  moreover have "Date (monthly_sales two_periods ! 0) = (2021, 1)"
    "Date (monthly_sales two_periods ! 1) = (2021, 2)"
    by (simp_all add: nth_monthly_sales two_periods_length Date_with_growth
        two_periods_groups Date_monthly_agg_of)
  moreover have "Total_Revenue (monthly_sales two_periods ! 0) = 1"
    "Total_Revenue (monthly_sales two_periods ! 1) = 2"
    by (simp_all add: Total_Revenue_monthly_sales two_periods_length two_periods_groups
        two_periods_revenue)
  moreover note two_periods_growth
  ultimately show ?thesis
    by (simp add: two_periods_trends two_periods_sums)
qed

theorem trends_sorted_growth_witness:
  "two_periods \<noteq> [] \<and>
   analyze_sales_trends two_periods = Inr (monthly_sales two_periods) \<and>
   (0::nat) < 1 \<and> 1 < length (monthly_sales two_periods) \<and>
   Total_Revenue (monthly_sales two_periods ! (1 - 1)) \<noteq> 0 \<and>
   sorted_wrt (<) (map Date (monthly_sales two_periods)) \<and>
   Revenue_Growth (monthly_sales two_periods ! 0) = NaN \<and>
   Revenue_Growth (monthly_sales two_periods ! 1) = Fin ((2 - 1) / 1 * 100)"
proof -
  have l: "length (monthly_sales two_periods) = 2"
    by (simp add: length_monthly_sales two_periods_length)
  have r: "Total_Revenue (monthly_sales two_periods ! 0) = 1"
    "Total_Revenue (monthly_sales two_periods ! 1) = 2"
    by (simp_all add: Total_Revenue_monthly_sales two_periods_length two_periods_groups
        two_periods_revenue)
  have n: "two_periods \<noteq> []" by (simp add: two_periods_eval)
  from trends_sorted_growth [of two_periods] two_periods_trends
  have "sorted_wrt (<) (map Date (monthly_sales two_periods))"
    and "Revenue_Growth (monthly_sales two_periods ! 0) = NaN"
    and "\<forall>i. 0 < i \<and> i < length (monthly_sales two_periods) \<and>
           Total_Revenue (monthly_sales two_periods ! (i - 1)) \<noteq> 0 \<longrightarrow>
         Revenue_Growth (monthly_sales two_periods ! i) =
           Fin ((Total_Revenue (monthly_sales two_periods ! i)
                 - Total_Revenue (monthly_sales two_periods ! (i - 1)))
                / Total_Revenue (monthly_sales two_periods ! (i - 1)) * 100)"
    by simp_all
  then show ?thesis
    using l r n two_periods_trends by simp
qed

lemma tiny_period_eval:
  "tiny_period =
     [\<lparr>InvoiceNo = ''1'', StockCode = ''S1'', Description = ''Unknown Product'', Quantity = 1,
        UnitPrice = FloatCell (1 / 1000), CustomerID = ''A'', InvoiceDate = 18632 * ns_per_day,
        Year = 2021, Month = 1, DayOfWeek = ''Tuesday'', Hour = 0, TotalAmount = 1 / 1000\<rparr>,
      \<lparr>InvoiceNo = ''2'', StockCode = ''S1'', Description = ''Unknown Product'', Quantity = 1,
        UnitPrice = FloatCell 5, CustomerID = ''A'', InvoiceDate = 18663 * ns_per_day,
        Year = 2021, Month = 2, DayOfWeek = ''Friday'', Hour = 0, TotalAmount = 5\<rparr>]"
  by (simp add: tiny_period_def column_dtypes_def tiny_period_rows_def sample_row_def read_cell_def
      to_float64_def derive_columns_def
      fillna_Description_def astype_str_def dt_year_def dt_month_def sample_dates
      sample_months sample_hours sample_day_names)

lemma tiny_period_valid: "valid_rows tiny_period_rows = tiny_period"
proof -
  have "dropna_CustomerID (column_dtypes tiny_period_rows) = column_dtypes tiny_period_rows"
    by (simp add: dropna_CustomerID_def column_dtypes_def tiny_period_rows_def sample_row_def)
  moreover have "filter valid_transaction tiny_period = tiny_period"
    by (simp add: tiny_period_eval valid_transaction_def)
  ultimately show ?thesis
    by (simp add: valid_rows_def tiny_period_def)
qed

lemma tiny_period_bounds: "iqr_bounds tiny_period = Some (- (4997 / 2000), 14999 / 2000)"
  by (simp add: iqr_bounds_def quantile_def tiny_period_eval Let_def)

lemma tiny_period_inliers: "inlier_rows tiny_period_rows = tiny_period"
proof -
  have "filter (within_bounds (Some (- (4997 / 2000), 14999 / 2000))) tiny_period = tiny_period"
    by (simp add: tiny_period_eval within_bounds_def)
  then show ?thesis
    by (simp add: inlier_rows_def tiny_period_valid tiny_period_bounds)
qed

lemma tiny_period_groups:
  "monthly_groups tiny_period =
     [monthly_agg_of tiny_period (2021, 1), monthly_agg_of tiny_period (2021, 2)]"
  by (simp add: monthly_groups_def tiny_period_eval group_keys_def year_month_def
      less_eq_prod_def)

lemma tiny_period_revenue:
  "Total_Revenue (monthly_agg_of tiny_period (2021, 1)) = 0"
  "Total_Revenue (monthly_agg_of tiny_period (2021, 2)) = 5"
  by (simp_all add: monthly_agg_of_def group_rows_def year_month_def tiny_period_eval
      round2_def rint_def Let_def)

lemma tiny_period_customers:
  "m_Unique_Customers (monthly_agg_of tiny_period (2021, 1)) = 1"
  "m_Unique_Customers (monthly_agg_of tiny_period (2021, 2)) = 1"
  by (simp_all add: monthly_agg_of_def group_rows_def year_month_def tiny_period_eval
      nunique_def Let_def)

lemma tiny_period_trends:
  "analyze_sales_trends tiny_period = Inr (monthly_sales tiny_period)"
  by (rule analyze_sales_trends_nonempty) (simp add: tiny_period_eval)

lemma tiny_period_length: "length (monthly_groups tiny_period) = 2"
  by (simp add: tiny_period_groups)

lemma tiny_period_table:
  "length (monthly_sales tiny_period) = 2"
  "Total_Revenue (monthly_sales tiny_period ! 0) = 0"
  "Total_Revenue (monthly_sales tiny_period ! 1) = 5"
  by (simp_all add: length_monthly_sales Total_Revenue_monthly_sales tiny_period_length
      tiny_period_groups tiny_period_revenue)

text \<open>
  Claim C4, as amended. The monthly table is returned for every frame with a row (no
  crash). In it, a period whose predecessor has a (rounded) revenue of zero gets a revenue
  growth that is not finite: NaN (null) only when its own revenue is zero too, plus or minus
  infinity otherwise. Every period has at least one distinct customer, so a zero customer
  count never precedes a period and the customer growth of every later period is the finite
  value (c[i] - c[i-1]) / c[i-1] * 100.
\<close>

theorem zero_predecessor_growth:
  "(df \<noteq> [] \<longrightarrow> (\<exists>ms. analyze_sales_trends df = Inr ms)) \<and>
   (\<forall>ms i. analyze_sales_trends df = Inr ms \<and> 0 < i \<and> i < length ms \<longrightarrow>
      (Total_Revenue (ms ! (i - 1)) = 0 \<longrightarrow>
         Revenue_Growth (ms ! i) =
           (if 0 < Total_Revenue (ms ! i) then PInf
            else if Total_Revenue (ms ! i) < 0 then NInf
            else NaN)) \<and>
      0 < m_Unique_Customers (ms ! (i - 1)) \<and>
      Customer_Growth (ms ! i) =
        Fin ((of_int (m_Unique_Customers (ms ! i)) - of_int (m_Unique_Customers (ms ! (i - 1))))
             / of_int (m_Unique_Customers (ms ! (i - 1))) * 100))"
proof (intro conjI impI allI)
  assume "df \<noteq> []"
  then show "\<exists>ms. analyze_sales_trends df = Inr ms"
    by (simp add: analyze_sales_trends_nonempty)
next
  fix ms i
  assume a: "analyze_sales_trends df = Inr ms \<and> 0 < i \<and> i < length ms"
  then have ms: "ms = monthly_sales df"
    by (simp add: analyze_sales_trends_Inr)
  have len: "length ms = length (monthly_groups df)"
    by (simp add: ms length_monthly_sales)
  from a len have i: "i < length (monthly_groups df)" and j: "i - 1 < length (monthly_groups df)"
    by auto
  have rg: "Revenue_Growth (ms ! i) =
      np_mul_pos (np_sub (np_div (Total_Revenue (ms ! i)) (Total_Revenue (ms ! (i - 1)))) 1) 100"
    using a i j
    by (simp add: ms Revenue_Growth_monthly_sales Total_Revenue_monthly_sales
        nth_growth_percent)
  have cg: "Customer_Growth (ms ! i) =
      np_mul_pos (np_sub (np_div (of_int (m_Unique_Customers (ms ! i)))
        (of_int (m_Unique_Customers (ms ! (i - 1))))) 1) 100"
    using a i j
    by (simp add: ms Customer_Growth_monthly_sales Unique_Customers_monthly_sales
        nth_growth_percent)
  show pos: "0 < m_Unique_Customers (ms ! (i - 1))"
    using j by (simp add: ms Unique_Customers_monthly_sales Unique_Customers_pos)
  show "Customer_Growth (ms ! i) =
        Fin ((of_int (m_Unique_Customers (ms ! i)) - of_int (m_Unique_Customers (ms ! (i - 1))))
             / of_int (m_Unique_Customers (ms ! (i - 1))) * 100)"
    using pos by (simp add: cg growth_percent_finite)
  {
    assume "Total_Revenue (ms ! (i - 1)) = 0"
    then show "Revenue_Growth (ms ! i) =
           (if 0 < Total_Revenue (ms ! i) then PInf
            else if Total_Revenue (ms ! i) < 0 then NInf
            else NaN)"
      by (simp only: rg growth_percent_zero)
  }
qed

text \<open>
  The claim as stated fails: a January revenue of 0.001, reported as 0.00, followed by a
  February revenue of 5 gives February the revenue growth plus infinity, not null.
\<close>

theorem zero_revenue_growth_infinite:
  "inlier_rows tiny_period_rows = tiny_period \<and>
   analyze_sales_trends tiny_period = Inr (monthly_sales tiny_period) \<and>
   length (monthly_sales tiny_period) = 2 \<and>
   Total_Revenue (monthly_sales tiny_period ! 0) = 0 \<and>
   Revenue_Growth (monthly_sales tiny_period ! 1) = PInf \<and>
   Revenue_Growth (monthly_sales tiny_period ! 1) \<noteq> NaN"
proof -
  have "Revenue_Growth (monthly_sales tiny_period ! 1) = PInf"
    by (simp add: Revenue_Growth_monthly_sales tiny_period_length tiny_period_groups
        tiny_period_revenue growth_percent_def np_div_def)
  moreover note tiny_period_table(1,2) tiny_period_inliers tiny_period_trends
  ultimately show ?thesis by simp
qed

theorem zero_predecessor_growth_witness:
  "tiny_period \<noteq> [] \<and>
   analyze_sales_trends tiny_period = Inr (monthly_sales tiny_period) \<and>
   (0::nat) < 1 \<and> 1 < length (monthly_sales tiny_period) \<and>
   Total_Revenue (monthly_sales tiny_period ! (1 - 1)) = 0 \<and>
   Revenue_Growth (monthly_sales tiny_period ! 1) = PInf \<and>
   Customer_Growth (monthly_sales tiny_period ! 1) = Fin 0"
proof -
  have n: "tiny_period \<noteq> []" by (simp add: tiny_period_eval)
  have u: "m_Unique_Customers (monthly_sales tiny_period ! 0) = 1"
    "m_Unique_Customers (monthly_sales tiny_period ! 1) = 1"
    by (simp_all add: Unique_Customers_monthly_sales tiny_period_length tiny_period_groups
        tiny_period_customers)
  have h: "analyze_sales_trends tiny_period = Inr (monthly_sales tiny_period) \<and>
      (0::nat) < 1 \<and> 1 < length (monthly_sales tiny_period)"
    by (simp add: tiny_period_trends tiny_period_table)
  from zero_predecessor_growth [of tiny_period] h
  have "(Total_Revenue (monthly_sales tiny_period ! (1 - 1)) = 0 \<longrightarrow>
         Revenue_Growth (monthly_sales tiny_period ! 1) =
           (if 0 < Total_Revenue (monthly_sales tiny_period ! 1) then PInf
            else if Total_Revenue (monthly_sales tiny_period ! 1) < 0 then NInf
            else NaN)) \<and>
      Customer_Growth (monthly_sales tiny_period ! 1) =
        Fin ((of_int (m_Unique_Customers (monthly_sales tiny_period ! 1))
              - of_int (m_Unique_Customers (monthly_sales tiny_period ! (1 - 1))))
             / of_int (m_Unique_Customers (monthly_sales tiny_period ! (1 - 1))) * 100)"
    by blast
  then show ?thesis
    using n h u tiny_period_table by simp
qed

subsection \<open>Ranking\<close>

lemma length_nlargest: "length (nlargest n col df) = min (nat n) (length df)"
  by (simp add: nlargest_def min.commute)

lemma sorted_descending_sort_key:
  fixes col :: "'r \<Rightarrow> real"
  shows "sorted_wrt (\<lambda>a b. col b \<le> col a) (sort_key (\<lambda>r. - col r) df)"
proof -
  have "sorted (map (\<lambda>r. - col r) (sort_key (\<lambda>r. - col r) df))"
    by (rule sorted_sort_key)
  then show ?thesis by (simp add: sorted_map)
qed

lemma sorted_nlargest: "sorted_wrt (\<lambda>a b. col b \<le> col a) (nlargest n col df)"
  by (simp add: nlargest_def sorted_wrt_take sorted_descending_sort_key)

lemma stable_descending_sort_key:
  fixes col :: "'r \<Rightarrow> real"
  shows "filter (\<lambda>r. col r = v) (sort_key (\<lambda>r. - col r) df) = filter (\<lambda>r. col r = v) df"
  using sort_key_stable [of "\<lambda>r. - col r" "- v" df] by simp

lemma nlargest_ranked:
  "\<exists>ranked. mset ranked = mset df \<and> nlargest n col df = take (nat n) ranked \<and>
     sorted_wrt (\<lambda>a b. col b \<le> col a) ranked \<and>
     (\<forall>v. filter (\<lambda>r. col r = v) ranked = filter (\<lambda>r. col r = v) df)"
proof (intro exI conjI)
  show "mset (sort_key (\<lambda>r. - col r) df) = mset df" by simp
  show "nlargest n col df = take (nat n) (sort_key (\<lambda>r. - col r) df)"
    by (simp add: nlargest_def)
  show "sorted_wrt (\<lambda>a b. col b \<le> col a) (sort_key (\<lambda>r. - col r) df)"
    by (rule sorted_descending_sort_key)
  show "\<forall>v. filter (\<lambda>r. col r = v) (sort_key (\<lambda>r. - col r) df) = filter (\<lambda>r. col r = v) df"
    by (simp add: stable_descending_sort_key)
qed

lemma nlargest_dominates:
  fixes col :: "'r \<Rightarrow> real"
  assumes "s \<in> set (nlargest n col df)"
    and "u \<in># mset df - mset (nlargest n col df)"
  shows "col u \<le> col s"
proof -
  let ?r = "sort_key (\<lambda>r. - col r) df"
  have n: "nlargest n col df = take (nat n) ?r"
    by (simp add: nlargest_def)
  have "mset df = mset (take (nat n) ?r) + mset (drop (nat n) ?r)"
    by (metis append_take_drop_id mset_append mset_sort)
  then have "mset df - mset (nlargest n col df) = mset (drop (nat n) ?r)"
    by (simp add: n)
  with assms(2) have u: "u \<in> set (drop (nat n) ?r)" by simp
  from assms(1) have s: "s \<in> set (take (nat n) ?r)" by (simp add: n)
  have "sorted_wrt (\<lambda>a b. col b \<le> col a) (take (nat n) ?r @ drop (nat n) ?r)"
    by (simp add: sorted_descending_sort_key)
  then show ?thesis
    using s u unfolding sorted_wrt_append by blast
qed

lemma product_key_of_row: "(p_StockCode (product_row_of df k), p_Description (product_row_of df k)) = k"
  by (simp add: product_row_of_def Let_def)

lemma length_product_analysis: "length (product_analysis df) = card (product_key ` set df)"
  by (simp add: product_analysis_def length_group_keys)

text \<open>
  Claim C5. For every frame and every \<open>n\<close> (for \<open>n \<ge> 0\<close>, \<open>nat n\<close> is \<open>n\<close>)
  the returned products number min(n, number of distinct (StockCode, Description) keys);
  they are in descending order of revenue; they are the first \<open>n\<close> rows of a
  rearrangement of the product table that is descending and keeps rows of equal revenue in
  their group order (the order of the sorted keys, one row per key); for \<open>n = 0\<close> the
  result is empty.
\<close>

theorem top_products_ranked:
  "length (plot_top_products df n) = min (nat n) (card (product_key ` set df)) \<and>
   sorted_wrt (\<lambda>a b. p_Total_Revenue b \<le> p_Total_Revenue a) (plot_top_products df n) \<and>
   (\<exists>ranked.
      mset ranked = mset (product_analysis df) \<and>
      plot_top_products df n = take (nat n) ranked \<and>
      sorted_wrt (\<lambda>a b. p_Total_Revenue b \<le> p_Total_Revenue a) ranked \<and>
      (\<forall>v. filter (\<lambda>r. p_Total_Revenue r = v) ranked
           = filter (\<lambda>r. p_Total_Revenue r = v) (product_analysis df))) \<and>
   map (\<lambda>r. (p_StockCode r, p_Description r)) (product_analysis df) = group_keys product_key df \<and>
   plot_top_products df 0 = []"
proof (intro conjI)
  show "length (plot_top_products df n) = min (nat n) (card (product_key ` set df))"
    by (simp add: plot_top_products_def length_nlargest length_product_analysis)
  show "sorted_wrt (\<lambda>a b. p_Total_Revenue b \<le> p_Total_Revenue a) (plot_top_products df n)"
    by (simp add: plot_top_products_def sorted_nlargest)
  show "\<exists>ranked.
      mset ranked = mset (product_analysis df) \<and>
      plot_top_products df n = take (nat n) ranked \<and>
      sorted_wrt (\<lambda>a b. p_Total_Revenue b \<le> p_Total_Revenue a) ranked \<and>
      (\<forall>v. filter (\<lambda>r. p_Total_Revenue r = v) ranked
           = filter (\<lambda>r. p_Total_Revenue r = v) (product_analysis df))"
    unfolding plot_top_products_def by (rule nlargest_ranked)
  show "map (\<lambda>r. (p_StockCode r, p_Description r)) (product_analysis df) = group_keys product_key df"
    by (simp add: product_analysis_def comp_def product_key_of_row)
  show "plot_top_products df 0 = []"
    by (simp add: plot_top_products_def nlargest_def)
qed

lemma three_products_eval:
  "three_products =
     [\<lparr>InvoiceNo = ''1'', StockCode = ''S3'', Description = ''Unknown Product'', Quantity = 1,
        UnitPrice = IntCell 5, CustomerID = ''A'', InvoiceDate = 0,
        Year = dt_year 0, Month = dt_month 0, DayOfWeek = dt_day_name 0, Hour = dt_hour 0,
        TotalAmount = 5\<rparr>,
      \<lparr>InvoiceNo = ''2'', StockCode = ''S1'', Description = ''Unknown Product'', Quantity = 1,
        UnitPrice = IntCell 5, CustomerID = ''B'', InvoiceDate = 0,
        Year = dt_year 0, Month = dt_month 0, DayOfWeek = dt_day_name 0, Hour = dt_hour 0,
        TotalAmount = 5\<rparr>,
      \<lparr>InvoiceNo = ''3'', StockCode = ''S2'', Description = ''Unknown Product'', Quantity = 1,
        UnitPrice = IntCell 3, CustomerID = ''A'', InvoiceDate = 0,
        Year = dt_year 0, Month = dt_month 0, DayOfWeek = dt_day_name 0, Hour = dt_hour 0,
        TotalAmount = 3\<rparr>,
      \<lparr>InvoiceNo = ''4'', StockCode = ''S2'', Description = ''Unknown Product'', Quantity = 2,
        UnitPrice = IntCell 2, CustomerID = ''C'', InvoiceDate = 0,
        Year = dt_year 0, Month = dt_month 0, DayOfWeek = dt_day_name 0, Hour = dt_hour 0,
        TotalAmount = 4\<rparr>]"
  by (simp add: three_products_def sample_row_def read_cell_def wrap64_def
      derive_columns_def fillna_Description_def astype_str_def)

lemma three_products_keys:
  "group_keys product_key three_products =
     [(''S1'', ''Unknown Product''), (''S2'', ''Unknown Product''), (''S3'', ''Unknown Product'')]"
  by (simp add: three_products_eval group_keys_def product_key_def less_eq_prod_def)

lemma three_products_revenue:
  "p_Total_Revenue (product_row_of three_products (''S1'', ''Unknown Product'')) = 5"
  "p_Total_Revenue (product_row_of three_products (''S2'', ''Unknown Product'')) = 7"
  "p_Total_Revenue (product_row_of three_products (''S3'', ''Unknown Product'')) = 5"
  by (simp_all add: product_row_of_def group_rows_def product_key_def three_products_eval
      round2_def rint_def Let_def)

lemma three_products_top:
  "plot_top_products three_products 2 =
     [product_row_of three_products (''S2'', ''Unknown Product''),
      product_row_of three_products (''S1'', ''Unknown Product'')]"
  by (simp add: plot_top_products_def product_analysis_def three_products_keys nlargest_def
      three_products_revenue)

theorem top_products_ranked_witness:
  "length (plot_top_products three_products 2) = min (nat 2) (card (product_key ` set three_products)) \<and>
   card (product_key ` set three_products) = 3 \<and>
   plot_top_products three_products 2 =
     [product_row_of three_products (''S2'', ''Unknown Product''),
      product_row_of three_products (''S1'', ''Unknown Product'')] \<and>
   plot_top_products three_products 0 = []"
proof -
  have "card (product_key ` set three_products) = 3"
    using length_group_keys [of product_key three_products]
    by (simp add: three_products_keys)
  then show ?thesis
    using top_products_ranked [of three_products 2] top_products_ranked [of three_products 0]
    by (simp add: three_products_top)
qed

subsection \<open>Customers\<close>

lemma py_int_tenth: "py_int (real n / 10) = int (n div 10)"
proof -
  have "\<lfloor>real n / real 10\<rfloor> = int (n div 10)"
    by (rule floor_divide_of_nat_eq)
  then show ?thesis by (simp add: py_int_def)
qed

lemma length_top_customers: "length (top_customers cs) = length cs div 10"
  by (simp add: top_customers_def py_int_tenth length_nlargest)

text \<open>
  Claim C6, as amended. For every customer table the summary selects
  \<open>count div 10\<close> customers (the truncation of a tenth of the count, hence none when there
  are fewer than ten customers); no customer left out has spent more than a selected one;
  and the share reported is the combined spend of the selected customers divided by the
  spend of all customers, times 100, which is 0 when nobody is selected and the total spend
  is not zero.
\<close>

theorem top_customers_truncated:
  "length (top_customers cs) = length cs div 10 \<and>
   (\<forall>s\<in>set (top_customers cs). \<forall>u\<in>#mset cs - mset (top_customers cs).
      Total_Spent u \<le> Total_Spent s) \<and>
   top_customers_share cs =
     np_mul_pos
       (np_div (sum_list (map Total_Spent (top_customers cs))) (sum_list (map Total_Spent cs)))
       100 \<and>
   (length cs < 10 \<longrightarrow>
      top_customers cs = [] \<and>
      top_customers_share cs = (if sum_list (map Total_Spent cs) = 0 then NaN else Fin 0))"
proof (intro conjI ballI impI)
  show "length (top_customers cs) = length cs div 10"
    by (rule length_top_customers)
  show "top_customers_share cs =
     np_mul_pos
       (np_div (sum_list (map Total_Spent (top_customers cs))) (sum_list (map Total_Spent cs)))
       100"
    by (simp add: top_customers_share_def)
next
  fix s u
  assume "s \<in> set (top_customers cs)" "u \<in># mset cs - mset (top_customers cs)"
  then show "Total_Spent u \<le> Total_Spent s"
    unfolding top_customers_def by (rule nlargest_dominates)
next
  assume "length cs < 10"
  then have "length (top_customers cs) = 0"
    by (simp add: length_top_customers)
  then show e: "top_customers cs = []" by simp
  show "top_customers_share cs = (if sum_list (map Total_Spent cs) = 0 then NaN else Fin 0)"
    by (simp add: top_customers_share_def e np_div_def)
qed

lemma one_customer_eval:
  "one_customer =
     [\<lparr>InvoiceNo = ''1'', StockCode = ''S1'', Description = ''Unknown Product'', Quantity = 5,
        UnitPrice = IntCell 2, CustomerID = ''A'', InvoiceDate = 18632 * ns_per_day,
        Year = 2021, Month = 1, DayOfWeek = ''Tuesday'', Hour = 0, TotalAmount = 10\<rparr>]"
  by (simp add: one_customer_def three_rows_def sample_row_def read_cell_def wrap64_def
      derive_columns_def
      fillna_Description_def astype_str_def dt_year_def dt_month_def sample_dates
      sample_months sample_hours sample_day_names)

lemma one_customer_stats:
  "analyze_customer_behavior one_customer = [customer_row_of one_customer ''A'']"
  by (simp add: analyze_customer_behavior_def group_keys_def one_customer_eval)

lemma one_customer_spent: "Total_Spent (customer_row_of one_customer ''A'') = 10"
  by (simp add: customer_row_of_def group_rows_def one_customer_eval round2_def rint_def Let_def)

text \<open>
  The claim as stated fails: for the single customer of the three sample rows, who spent
  10, nobody is selected and the share is 0, not 100.
\<close>

theorem single_customer_none_selected:
  "load_and_clean_data (Table three_rows) = Inr (one_customer, three_rows_statistics) \<and>
   length (analyze_customer_behavior one_customer) = 1 \<and>
   top_customers (analyze_customer_behavior one_customer) = [] \<and>
   sum_list (map Total_Spent (analyze_customer_behavior one_customer)) = 10 \<and>
   top_customers_share (analyze_customer_behavior one_customer) = Fin 0 \<and>
   top_customers_share (analyze_customer_behavior one_customer) \<noteq> Fin (10 / 10 * 100)"
proof -
  have "top_customers [customer_row_of one_customer ''A''] = []"
    by (simp add: top_customers_def nlargest_def py_int_def)
  then show ?thesis
    using three_rows_cleaned [folded one_customer_def]
    by (simp add: one_customer_stats one_customer_spent top_customers_share_def np_div_def)
qed

theorem top_customers_truncated_witness:
  "length (analyze_customer_behavior one_customer) < 10 \<and>
   length (top_customers (analyze_customer_behavior one_customer)) = 1 div 10 \<and>
   top_customers (analyze_customer_behavior one_customer) = [] \<and>
   top_customers_share (analyze_customer_behavior one_customer) = Fin 0"
proof -
  have l: "length (analyze_customer_behavior one_customer) < 10"
    by (simp add: one_customer_stats)
  have s: "sum_list (map Total_Spent (analyze_customer_behavior one_customer)) = 10"
    by (simp add: one_customer_stats one_customer_spent)
  from top_customers_truncated [of "analyze_customer_behavior one_customer"] l
  have "top_customers (analyze_customer_behavior one_customer) = [] \<and>
      top_customers_share (analyze_customer_behavior one_customer) =
        (if sum_list (map Total_Spent (analyze_customer_behavior one_customer)) = 0
         then NaN else Fin 0)"
    by blast
  then show ?thesis using l s by simp
qed

lemma series_min_le_max:
  assumes "xs \<noteq> []"
  shows "\<exists>a b. series_min xs = Some a \<and> series_max xs = Some b \<and> a \<le> b \<and>
     a \<in> set xs \<and> b \<in> set xs \<and> (\<forall>x\<in>set xs. a \<le> x \<and> x \<le> b)"
proof -
  from assms obtain y ys where xs: "xs = y # ys" by (cases xs) auto
  have a: "series_min xs = Some (Min (set xs))"
    unfolding xs using Min.set_eq_fold [of y ys] by simp
  have b: "series_max xs = Some (Max (set xs))"
    unfolding xs using Max.set_eq_fold [of y ys] by simp
  have "Min (set xs) \<le> Max (set xs)"
    using assms by (simp add: Min_le_iff)
  moreover have "Min (set xs) \<in> set xs" "Max (set xs) \<in> set xs"
    using assms by (simp_all add: Min_in Max_in)
  moreover have "\<forall>x\<in>set xs. Min (set xs) \<le> x \<and> x \<le> Max (set xs)"
    by simp
  ultimately show ?thesis using a b by blast
qed

lemma td_days_nonneg: "0 \<le> delta \<Longrightarrow> 0 \<le> td_days delta"
  by (simp add: td_days_def ns_per_day_def pos_imp_zdiv_nonneg_iff)

text \<open>
  Claim C8. Every customer of the customer table has a first and a last purchase, and a
  lifetime that is defined, equal to the whole days of their difference rounded down, and
  not negative; a customer with exactly one row has lifetime 0.
\<close>

theorem customer_lifetime:
  assumes "c \<in> set (analyze_customer_behavior df)"
  shows "\<exists>first_purchase last_purchase days.
     First_Purchase c = Some first_purchase \<and> Last_Purchase c = Some last_purchase \<and>
     Customer_Lifetime_Days c = Some days \<and>
     days = (last_purchase - first_purchase) div ns_per_day \<and> 0 \<le> days \<and>
     (length (group_rows CustomerID df (c_CustomerID c)) = 1 \<longrightarrow> days = 0)"
proof -
  from assms obtain k where k: "k \<in> set (group_keys CustomerID df)"
    and c: "c = customer_row_of df k"
    by (auto simp add: analyze_customer_behavior_def)
  let ?g = "group_rows CustomerID df k"
  let ?ts = "map InvoiceDate ?g"
  have id: "c_CustomerID c = k"
    by (simp add: c customer_row_of_def Let_def)
  from k have "?g \<noteq> []" by (rule group_rows_nonempty)
  then have "?ts \<noteq> []" by simp
  from series_min_le_max [OF this] obtain a b where
    ab: "series_min ?ts = Some a" "series_max ?ts = Some b" "a \<le> b"
    by blast
  have f: "First_Purchase c = Some a" "Last_Purchase c = Some b"
    by (simp_all add: c customer_row_of_def Let_def ab)
  have l: "Customer_Lifetime_Days c = Some (td_days (b - a))"
    by (simp add: c customer_row_of_def Let_def ab lifetime_days_def)
  have n: "0 \<le> td_days (b - a)"
    using ab(3) by (simp add: td_days_nonneg)
  have one: "td_days (b - a) = 0" if "length ?g = 1"
  proof -
    from that obtain r where "?g = [r]"
      by (cases ?g) auto
    then have "a = InvoiceDate r" "b = InvoiceDate r"
      using ab by simp_all
    then show ?thesis by (simp add: td_days_def)
  qed
  show ?thesis
    using f l n one by (simp add: id td_days_def)
qed

theorem customer_lifetime_witness:
  "customer_row_of one_customer ''A'' \<in> set (analyze_customer_behavior one_customer) \<and>
   length (group_rows CustomerID one_customer
     (c_CustomerID (customer_row_of one_customer ''A''))) = 1 \<and>
   Customer_Lifetime_Days (customer_row_of one_customer ''A'') = Some 0"
proof -
  have m: "customer_row_of one_customer ''A'' \<in> set (analyze_customer_behavior one_customer)"
    by (simp add: one_customer_stats)
  have l: "length (group_rows CustomerID one_customer
     (c_CustomerID (customer_row_of one_customer ''A''))) = 1"
    by (simp add: customer_row_of_def Let_def group_rows_def one_customer_eval)
  from customer_lifetime [OF m] l show ?thesis
    using m by auto
qed

subsection \<open>Report and pipeline\<close>

lemma idxmax_group_sums: "df \<noteq> [] \<Longrightarrow> \<exists>best. idxmax (group_sums key df) = Some best"
proof -
  assume "df \<noteq> []"
  then have "set (group_keys key df) \<noteq> {}" by (simp add: set_group_keys)
  then have "group_sums key df \<noteq> []" by (auto simp add: group_sums_def)
  then show ?thesis by (cases "group_sums key df") simp_all
qed

lemma td_days_zero: "0 \<le> delta \<Longrightarrow> delta < ns_per_day \<Longrightarrow> td_days delta = 0"
  by (simp add: td_days_def)

text \<open>
  Claim C10, as amended. For every frame with a row whose least and greatest timestamps
  differ by less than one day, the date range is 0 days and the average daily revenue
  divides by it, unguarded. The division is a float64 division: it raises nothing, the
  report is completed, and the average daily revenue is plus infinity when the revenue is
  positive (as it is when every total amount is positive), minus infinity when it is
  negative, NaN when it is zero.
\<close>

theorem zero_span_report:
  assumes "df \<noteq> []"
    and "series_min (map InvoiceDate df) = Some first_date"
    and "series_max (map InvoiceDate df) = Some last_date"
    and "last_date - first_date < ns_per_day"
  shows "\<exists>report. generate_comprehensive_report df = Inr report \<and>
     date_range report = 0 \<and>
     total_revenue report = sum_list (map TotalAmount df) \<and>
     average_daily_revenue report =
       (if 0 < total_revenue report then PInf
        else if total_revenue report < 0 then NInf
        else NaN) \<and>
     ((\<forall>r\<in>set df. 0 < TotalAmount r) \<longrightarrow> average_daily_revenue report = PInf)"
proof -
  from assms(1) have "map InvoiceDate df \<noteq> []" by simp
  from series_min_le_max [OF this] assms(2,3) have "first_date \<le> last_date" by auto
  with assms(4) have z: "td_days (last_date - first_date) = 0"
    by (simp add: td_days_zero)
  obtain day where day: "idxmax (group_sums (\<lambda>r. dt_date (InvoiceDate r)) df) = Some day"
    using idxmax_group_sums [OF assms(1)] by blast
  obtain hour where hour: "idxmax (group_sums Hour df) = Some hour"
    using idxmax_group_sums [OF assms(1)] by blast
  obtain dow where dow: "idxmax (group_sums DayOfWeek df) = Some dow"
    using idxmax_group_sums [OF assms(1)] by blast
  have pos: "0 < sum_list (map TotalAmount df)" if "\<forall>r\<in>set df. 0 < TotalAmount r"
  proof -
    from assms(1) obtain r rs where df: "df = r # rs" by (cases df) auto
    have "0 \<le> sum_list (map TotalAmount rs)"
      using that by (intro sum_list_nonneg) (auto simp add: df less_imp_le)
    moreover have "0 < TotalAmount r" using that by (simp add: df)
    ultimately show ?thesis by (simp add: df)
  qed
  show ?thesis
    using pos
    by (simp add: generate_comprehensive_report_def Let_def assms(2,3) day hour dow z
        np_div_def)
qed

lemma one_customer_report_eval:
  "generate_comprehensive_report one_customer = Inr one_customer_report"
  by (simp add: generate_comprehensive_report_def one_customer_eval group_sums_def
      group_keys_def group_rows_def sample_dates td_days_def nunique_def mean_def np_div_def
      one_customer_report_def Let_def)

text \<open>
  The claim as stated fails: the three sample rows clean to one row, its date range is 0
  and its average daily revenue is plus infinity, and no error branch is taken; the report
  is completed and \<^verbatim>\<open>main\<close> returns its results.
\<close>

theorem zero_span_no_exception:
  "load_and_clean_data (Table three_rows) = Inr (one_customer, three_rows_statistics) \<and>
   one_customer \<noteq> [] \<and>
   generate_comprehensive_report one_customer = Inr one_customer_report \<and>
   date_range one_customer_report = 0 \<and>
   average_daily_revenue one_customer_report = PInf \<and>
   main (Table three_rows) =
     Some \<lparr> cleaned_data = one_customer,
            monthly_trends = monthly_sales one_customer,
            top_products = plot_top_products one_customer 10,
            customer_analysis = analyze_customer_behavior one_customer \<rparr>"
proof -
  have n: "one_customer \<noteq> []" by (simp add: one_customer_def)
  have "main (Table three_rows) =
     Some \<lparr> cleaned_data = one_customer,
            monthly_trends = monthly_sales one_customer,
            top_products = plot_top_products one_customer 10,
            customer_analysis = analyze_customer_behavior one_customer \<rparr>"
    by (simp add: main_def run_steps_def three_rows_cleaned [folded one_customer_def]
        analyze_sales_trends_nonempty [OF n] one_customer_report_eval)
  then show ?thesis
    using n three_rows_cleaned [folded one_customer_def] one_customer_report_eval
    by (simp add: one_customer_report_def)
qed

theorem zero_span_report_witness:
  "one_customer \<noteq> [] \<and>
   series_min (map InvoiceDate one_customer) = Some (18632 * ns_per_day) \<and>
   series_max (map InvoiceDate one_customer) = Some (18632 * ns_per_day) \<and>
   18632 * ns_per_day - 18632 * ns_per_day < ns_per_day \<and>
   list_all (\<lambda>r. 0 < TotalAmount r) one_customer \<and>
   (\<exists>report. generate_comprehensive_report one_customer = Inr report \<and>
      date_range report = 0 \<and> average_daily_revenue report = PInf)"
proof -
  have n: "one_customer \<noteq> []" by (simp add: one_customer_def)
  have a: "series_min (map InvoiceDate one_customer) = Some (18632 * ns_per_day)"
    and b: "series_max (map InvoiceDate one_customer) = Some (18632 * ns_per_day)"
    by (simp_all add: one_customer_eval)
  have c: "18632 * ns_per_day - 18632 * ns_per_day < ns_per_day"
    by (simp add: ns_per_day_def)
  have p: "\<forall>r\<in>set one_customer. 0 < TotalAmount r"
    by (simp add: one_customer_eval)
  from zero_span_report [OF n a b c] p show ?thesis
    using n a b c by (auto simp add: list_all_iff)
qed

text \<open>
  Claim C9, as amended. For every input on which a step raises, the later steps are not
  run (an exception of the cleaning is the exception of the run), and \<^verbatim>\<open>main\<close>
  catches it and returns \<^verbatim>\<open>None\<close>; it returns \<^verbatim>\<open>None\<close> only then. The
  caller gets the same value whatever was raised, without the exception, a stage or counts
  (the message is printed on the console only).
\<close>

theorem main_returns_None_on_exception:
  "(\<forall>e. run_steps src = Inl e \<longrightarrow> main src = None) \<and>
   (main src = None \<longrightarrow> (\<exists>e. run_steps src = Inl e)) \<and>
   (\<forall>e. load_and_clean_data src = Inl e \<longrightarrow> run_steps src = Inl e)"
  by (auto simp add: main_def run_steps_def split: sum.splits)

text \<open>
  The claim as stated fails: an unreadable source, a sheet without the columns and a sheet
  without rows raise three different exceptions, and \<^verbatim>\<open>main\<close> returns the same
  \<^verbatim>\<open>None\<close> for each.
\<close>

theorem exceptions_undifferentiated:
  "run_steps Unreadable = Inl FileNotFoundError \<and>
   run_steps MissingColumns = Inl KeyError \<and>
   run_steps (Table []) = Inl ZeroDivisionError \<and>
   main Unreadable = None \<and>
   main MissingColumns = None \<and>
   main (Table []) = None"
  by (simp add: main_def run_steps_def load_and_clean_data_def clean_frame_def
      column_dtypes_def)

theorem main_returns_None_on_exception_witness:
  "run_steps (Table []) = Inl ZeroDivisionError \<and>
   load_and_clean_data (Table []) = Inl ZeroDivisionError \<and>
   main (Table []) = None"
proof -
  have l: "load_and_clean_data (Table []) = Inl ZeroDivisionError"
    by (simp add: load_and_clean_data_def clean_frame_def column_dtypes_def)
  from main_returns_None_on_exception [of "Table []"] l
  have "run_steps (Table []) = Inl ZeroDivisionError" by blast
  moreover from main_returns_None_on_exception [of "Table []"] this
  have "main (Table []) = None" by blast
  ultimately show ?thesis using l by simp
qed

end
